theory Spec2Isabelle
  imports Complex_Main "HOL-Library.Word"
begin

section \<open>Strings\<close>

text \<open>
  A Python \<open>str\<close> that comes from the user is a list of Unicode code points. \<open>py\<close> writes
  a literal of the program as such a list.

  \<open>str.strip()\<close> removes the leading and trailing code points for which
  \<open>str.isspace()\<close> holds: TAB, LF, VT, FF, CR, the separators U+001C..U+001F, the space,
  U+0085, U+00A0, U+1680, U+2000..U+200A, U+2028, U+2029, U+202F, U+205F and U+3000.

  \<open>str.upper()\<close> maps every code point to its upper-case form and joins the results:
  \<open>a..z\<close> go to \<open>A..Z\<close>, every other ASCII code point stays, and a code point from 128 on
  goes to what the Unicode database of the interpreter gives for it, which can be several
  code points (U+00DF goes to \<open>SS\<close>). The database is not part of the repository and is a
  parameter: \<open>to_upper\<close> is its upper-case mapping, and \<open>to_decimal\<close> is the decimal digit
  value of a code point that has one (\<open>Py_UNICODE_TODECIMAL\<close>).
\<close>

type_synonym pystr = "nat list"

definition py :: "string \<Rightarrow> pystr" where
  "py s = map of_char s"

definition is_space :: "nat \<Rightarrow> bool" where
  "is_space c =
     (c \<in> set [0x09, 0x0A, 0x0B, 0x0C, 0x0D, 0x1C, 0x1D, 0x1E, 0x1F, 0x20, 0x85, 0xA0,
               0x1680, 0x2000, 0x2001, 0x2002, 0x2003, 0x2004, 0x2005, 0x2006, 0x2007,
               0x2008, 0x2009, 0x200A, 0x2028, 0x2029, 0x202F, 0x205F, 0x3000])"

definition strip :: "pystr \<Rightarrow> pystr" where
  "strip s = rev (dropWhile is_space (rev (dropWhile is_space s)))"

record unicode =
  to_upper :: "nat \<Rightarrow> nat list"
  to_decimal :: "nat \<Rightarrow> nat option"

definition upper_char :: "unicode \<Rightarrow> nat \<Rightarrow> nat list" where
  "upper_char u c =
     (if 97 \<le> c \<and> c \<le> 122 then [c - 32]
      else if c < 128 then [c]
      else to_upper u c)"

definition upper :: "unicode \<Rightarrow> pystr \<Rightarrow> pystr" where
  "upper u s = concat (map (upper_char u) s)"

section \<open>Decoded JSON values\<close>

text \<open>
  The value \<open>resp.json()\<close> returns: \<open>None\<close>, a bool, an unbounded int, a float, a string,
  a list or a dict (in insertion order). A float is a rational, an infinity or a NaN, which
  is all that the comparison with zero in \<open>_request\<close> looks at.
\<close>

datatype pyfloat = FNum rat | FInf bool | FNan

datatype json =
    JNull
  | JBool bool
  | JInt int
  | JFloat pyfloat
  | JStr string
  | JArr "json list"
  | JObj "(string \<times> json) list"

section \<open>Exceptions\<close>

text \<open>
  Every exception that the modelled code raises or lets through is a value.
  \<open>ValidationError\<close> carries its message; \<open>BinanceAPIError\<close> carries \<open>code\<close>, \<open>msg\<close> and
  \<open>status_code\<close>; \<open>ConnectionError\<close> and \<open>TimeoutError\<close> are the builtins that \<open>_request\<close>
  raises with its own message; \<open>InvalidOperation\<close> is the one of the \<open>decimal\<close> module;
  \<open>HTTPError\<close> is what \<open>raise_for_status\<close> raises; \<open>JSONDecodeError\<close> is the \<open>ValueError\<close> of
  \<open>resp.json()\<close>; \<open>RequestException\<close> is any other failure of \<open>session.request\<close>.
\<close>

datatype exn =
    ValidationError pystr
  | InvalidOperation
  | BinanceAPIError json json int
  | ConnectionError string
  | TimeoutError string
  | HTTPError int
  | JSONDecodeError
  | TypeError
  | AttributeError
  | RequestException

section \<open>The decimal module\<close>

text \<open>
  A \<open>Decimal\<close> is a sign (\<open>True\<close> is negative), a coefficient and an exponent, or an
  infinity, or a NaN (quiet or signaling, with its diagnostic digits). The value of
  \<open>Finite neg c e\<close> is \<open>c * 10 ^ e\<close>, negated when \<open>neg\<close>.
\<close>

datatype decimal =
    Finite bool nat int
  | Infinity bool
  | NaN bool bool nat

definition is_digit :: "char \<Rightarrow> bool" where
  "is_digit c = (c \<in> set ''0123456789'')"

definition digit_val :: "char \<Rightarrow> nat" where
  "digit_val c = of_char c - 48"

definition digit_char :: "nat \<Rightarrow> char" where
  "digit_char d = ''0123456789'' ! d"

text \<open>The number that a string of digits writes, and \<open>str(n)\<close> on a natural number.\<close>

definition nat_of_digits :: "string \<Rightarrow> nat" where
  "nat_of_digits ds = foldl (\<lambda>a c. 10 * a + digit_val c) 0 ds"

fun str_nat :: "nat \<Rightarrow> string" where
  "str_nat n = (if n < 10 then [digit_char n] else str_nat (n div 10) @ [digit_char (n mod 10)])"

declare str_nat.simps [simp del]

definition str_int :: "int \<Rightarrow> string" where
  "str_int i = (if i < 0 then CHR ''-'' # str_nat (nat (- i)) else str_nat (nat i))"

text \<open>
  The constructor \<open>Decimal(value)\<close> on a \<open>str\<close>, as the C implementation of CPython
  does it. First the string is turned into ASCII characters: it is stripped of
  whitespace, underscores are dropped, an ASCII code point other than NUL is kept, a
  whitespace code point inside the string becomes a space, a code point with a decimal
  digit value becomes that digit, and any other code point makes the conversion fail.
\<close>

definition ascii_char :: "unicode \<Rightarrow> nat \<Rightarrow> char option" where
  "ascii_char u c =
     (if 0 < c \<and> c \<le> 127 then Some (char_of c)
      else if is_space c then Some CHR '' ''
      else if c = 0 then None
      else map_option digit_char (to_decimal u c))"

definition numeric_as_ascii :: "unicode \<Rightarrow> pystr \<Rightarrow> string option" where
  "numeric_as_ascii u v = those (map (ascii_char u) (filter (\<lambda>c. c \<noteq> 95) (strip v)))"

text \<open>
  The ASCII text is then read without regard to the case of its letters, by the grammar
  \<^verbatim>\<open>[-+]? ( digits [. digits] [E [-+] digits] | Inf[inity] | [s]NaN digits )\<close> with at least
  one digit in the coefficient. The functions below read the text in upper case.
\<close>

definition ascii_upper_char :: "char \<Rightarrow> char" where
  "ascii_upper_char c =
     (case map_of (zip ''abcdefghijklmnopqrstuvwxyz'' ''ABCDEFGHIJKLMNOPQRSTUVWXYZ'') c of
        Some u \<Rightarrow> u
      | None \<Rightarrow> c)"

definition ascii_upper :: "string \<Rightarrow> string" where
  "ascii_upper s = map ascii_upper_char s"

text \<open>An optional sign in front of a string: whether it is \<open>-\<close>, and the rest.\<close>

fun parse_sign :: "string \<Rightarrow> bool \<times> string" where
  "parse_sign [] = (False, [])"
| "parse_sign (c # cs) =
     (if c = CHR ''-'' then (True, cs)
      else if c = CHR ''+'' then (False, cs)
      else (False, c # cs))"

text \<open>
  The constructor is exact and refuses what it cannot hold: on a 64-bit build a
  coefficient, a fractional part or a diagnostic of more than \<open>MAX_PREC\<close> digits, a number
  other than zero whose adjusted exponent (the exponent plus the number of digits of the
  coefficient, less one) is above \<open>MAX_EMAX\<close>, a zero whose exponent is above \<open>MAX_EMAX\<close>, and
  an exponent below \<open>MIN_ETINY\<close>. All of these raise \<open>InvalidOperation\<close>, as a text outside
  the grammar does.
\<close>

definition MAX_PREC :: nat where
  "MAX_PREC = 999999999999999999"

definition MAX_EMAX :: int where
  "MAX_EMAX = 999999999999999999"

definition MIN_ETINY :: int where
  "MIN_ETINY = - 1999999999999999997"

definition representable :: "nat \<Rightarrow> int \<Rightarrow> bool" where
  "representable c e =
     (length (str_nat c) \<le> MAX_PREC \<and> MIN_ETINY \<le> e
      \<and> (if c = 0 then e \<le> MAX_EMAX else e + int (length (str_nat c)) - 1 \<le> MAX_EMAX))"

text \<open>
  \<open>parse_exponent\<close> is the text after the \<open>E\<close>, which must reach the end of the string;
  \<open>parse_finite\<close> is a number, with the coefficient \<open>intpart + fracpart\<close> read as an integer
  and the exponent less the length of \<open>fracpart\<close>; \<open>parse_special\<close> is an infinity or a NaN.
\<close>

definition parse_exponent :: "string \<Rightarrow> int option" where
  "parse_exponent s =
     (case parse_sign s of
        (neg, ds) \<Rightarrow>
          if ds \<noteq> [] \<and> list_all is_digit ds
          then Some (if neg then - int (nat_of_digits ds) else int (nat_of_digits ds))
          else None)"

definition parse_finite :: "bool \<Rightarrow> string \<Rightarrow> decimal option" where
  "parse_finite neg s =
     (let intpart = takeWhile is_digit s;
          r1 = dropWhile is_digit s;
          has_dot = (r1 \<noteq> [] \<and> hd r1 = CHR ''.'');
          fracpart = (if has_dot then takeWhile is_digit (tl r1) else []);
          r2 = (if has_dot then dropWhile is_digit (tl r1) else r1);
          exp = (if r2 = [] then Some 0
                 else if hd r2 = CHR ''E'' then parse_exponent (tl r2)
                 else None)
      in if intpart @ fracpart = [] then None
         else (case exp of
                 None \<Rightarrow> None
               | Some e \<Rightarrow>
                   if length fracpart \<le> MAX_PREC
                      \<and> representable (nat_of_digits (intpart @ fracpart))
                            (e - int (length fracpart))
                   then Some (Finite neg (nat_of_digits (intpart @ fracpart))
                                (e - int (length fracpart)))
                   else None))"

definition diagnostic :: "bool \<Rightarrow> bool \<Rightarrow> string \<Rightarrow> decimal option" where
  "diagnostic neg sig ds =
     (if list_all is_digit ds
         \<and> (nat_of_digits ds = 0 \<or> length (str_nat (nat_of_digits ds)) \<le> MAX_PREC)
      then Some (NaN neg sig (nat_of_digits ds))
      else None)"

definition parse_special :: "bool \<Rightarrow> string \<Rightarrow> decimal option" where
  "parse_special neg s =
     (if s = ''INF'' \<or> s = ''INFINITY'' then Some (Infinity neg)
      else if take 3 s = ''NAN'' then diagnostic neg False (drop 3 s)
      else if take 4 s = ''SNAN'' then diagnostic neg True (drop 4 s)
      else None)"

definition parse_numeric :: "string \<Rightarrow> decimal option" where
  "parse_numeric t =
     (case parse_sign t of
        (neg, r) \<Rightarrow>
          (case parse_finite neg r of
             Some d \<Rightarrow> Some d
           | None \<Rightarrow> parse_special neg r))"

definition Decimal :: "unicode \<Rightarrow> pystr \<Rightarrow> exn + decimal" where
  "Decimal u v =
     (case numeric_as_ascii u v of
        None \<Rightarrow> Inl InvalidOperation
      | Some a \<Rightarrow>
          (case parse_numeric (ascii_upper a) of
             None \<Rightarrow> Inl InvalidOperation
           | Some d \<Rightarrow> Inr d))"

text \<open>
  \<open>d <= 0\<close>: an ordering comparison with a NaN signals \<open>InvalidOperation\<close>, which the
  default context traps, so it raises; a zero coefficient is zero whatever the sign.
\<close>

fun le_zero :: "decimal \<Rightarrow> exn + bool" where
  "le_zero (NaN neg sig diag) = Inl InvalidOperation"
| "le_zero (Infinity neg) = Inr neg"
| "le_zero (Finite neg c e) = Inr (c = 0 \<or> neg)"

text \<open>
  \<open>str(d)\<close>, the scientific string of the module: plain notation when the exponent is
  at most zero and the number has more than \<open>-6\<close> digits to the left of the point, and one
  digit before the point with an \<open>E\<close> exponent otherwise.
\<close>

definition str_decimal :: "decimal \<Rightarrow> string" where
  "str_decimal d =
     (case d of
        Infinity neg \<Rightarrow> (if neg then ''-'' else []) @ ''Infinity''
      | NaN neg sig diag \<Rightarrow>
          (if neg then ''-'' else []) @ (if sig then ''sNaN'' else ''NaN'')
            @ (if diag = 0 then [] else str_nat diag)
      | Finite neg c e \<Rightarrow>
          (let digits = str_nat c;
               leftdigits = e + int (length digits);
               dotplace = (if e \<le> 0 \<and> leftdigits > - 6 then leftdigits else 1);
               intpart = (if dotplace \<le> 0 then ''0''
                          else if dotplace \<ge> int (length digits)
                            then digits @ replicate (nat (dotplace - int (length digits))) CHR ''0''
                          else take (nat dotplace) digits);
               fracpart = (if dotplace \<le> 0
                             then ''.'' @ replicate (nat (- dotplace)) CHR ''0'' @ digits
                           else if dotplace \<ge> int (length digits) then []
                           else ''.'' @ drop (nat dotplace) digits);
               exp = (if leftdigits = dotplace then []
                      else ''E'' @ (if leftdigits - dotplace < 0 then [] else ''+'')
                             @ str_int (leftdigits - dotplace))
           in (if neg then ''-'' else []) @ intpart @ fracpart @ exp))"

section \<open>bot/validators.py\<close>

text \<open>
  \<open>SYMBOL_PATTERN.match(s)\<close> for \<^verbatim>\<open>^[A-Z0-9]{3,20}$\<close>: between 3 and 20 code points of
  the class from the start of the string, and then \<open>$\<close>, which without \<open>re.MULTILINE\<close>
  matches at the end of the string and also just before a newline that ends the string.
\<close>

definition symbol_char :: "nat \<Rightarrow> bool" where
  "symbol_char c = ((65 \<le> c \<and> c \<le> 90) \<or> (48 \<le> c \<and> c \<le> 57))"

definition SYMBOL_PATTERN_match :: "pystr \<Rightarrow> bool" where
  "SYMBOL_PATTERN_match s =
     list_ex (\<lambda>n. n \<le> length s \<and> list_all symbol_char (take n s)
                  \<and> (drop n s = [] \<or> drop n s = [0x0A]))
       [3..<21]"

definition quoted :: "pystr \<Rightarrow> pystr" where
  "quoted s = [0x27] @ s @ [0x27]"

definition validate_symbol :: "unicode \<Rightarrow> pystr \<Rightarrow> exn + pystr" where
  "validate_symbol u symbol =
     (let s = upper u (strip symbol)
      in if \<not> SYMBOL_PATTERN_match s
         then Inl (ValidationError (py ''Invalid symbol '' @ quoted symbol
                     @ py ''. Expected uppercase alphanumeric (e.g. BTCUSDT).''))
         else Inr s)"

definition validate_side :: "unicode \<Rightarrow> pystr \<Rightarrow> exn + pystr" where
  "validate_side u side =
     (let s = upper u (strip side)
      in if s \<notin> {py ''BUY'', py ''SELL''}
         then Inl (ValidationError (py ''Invalid side '' @ quoted side
                     @ py ''. Must be one of: BUY, SELL.''))
         else Inr s)"

definition validate_order_type :: "unicode \<Rightarrow> pystr \<Rightarrow> exn + pystr" where
  "validate_order_type u order_type =
     (let ot = upper u (strip order_type)
      in if ot \<notin> {py ''MARKET'', py ''LIMIT'', py ''STOP_MARKET'', py ''STOP_LIMIT''}
         then Inl (ValidationError (py ''Invalid order type '' @ quoted order_type
                     @ py ''. Must be one of: LIMIT, MARKET, STOP_LIMIT, STOP_MARKET.''))
         else Inr ot)"

text \<open>
  In the three numeric validators only the constructor stands inside the \<open>try\<close>; the
  comparison \<open><= 0\<close> comes after it, so what the comparison raises is not caught.
\<close>

definition validate_quantity :: "unicode \<Rightarrow> pystr \<Rightarrow> exn + decimal" where
  "validate_quantity u quantity =
     (case Decimal u quantity of
        Inl e \<Rightarrow>
          Inl (ValidationError (py ''Invalid quantity '' @ quoted quantity
                 @ py ''. Must be a positive number.''))
      | Inr qty \<Rightarrow>
          (case le_zero qty of
             Inl e \<Rightarrow> Inl e
           | Inr nonpos \<Rightarrow>
               if nonpos
               then Inl (ValidationError (py ''Quantity must be greater than zero, got: ''
                           @ py (str_decimal qty) @ py ''.''))
               else Inr qty))"

text \<open>\<open>price is None or str(price).strip() == ""\<close>.\<close>

definition absent :: "pystr option \<Rightarrow> bool" where
  "absent p = (case p of None \<Rightarrow> True | Some s \<Rightarrow> strip s = [])"

definition validate_price :: "unicode \<Rightarrow> pystr option \<Rightarrow> pystr \<Rightarrow> exn + decimal option" where
  "validate_price u price order_type =
     (let ot = upper u (strip order_type);
          needs_price = (ot \<in> {py ''LIMIT'', py ''STOP_LIMIT''})
      in if needs_price \<and> absent price
         then Inl (ValidationError (py ''Price is required for '' @ ot @ py '' orders.''))
         else (case price of
                 None \<Rightarrow> Inr None
               | Some s \<Rightarrow>
                   if strip s = [] then Inr None
                   else (case Decimal u s of
                           Inl e \<Rightarrow>
                             Inl (ValidationError (py ''Invalid price '' @ quoted s
                                    @ py ''. Must be a positive number.''))
                         | Inr p \<Rightarrow>
                             (case le_zero p of
                                Inl e \<Rightarrow> Inl e
                              | Inr nonpos \<Rightarrow>
                                  if nonpos
                                  then Inl (ValidationError
                                         (py ''Price must be greater than zero, got: ''
                                            @ py (str_decimal p) @ py ''.''))
                                  else Inr (Some p)))))"

definition validate_stop_price ::
  "unicode \<Rightarrow> pystr option \<Rightarrow> pystr \<Rightarrow> exn + decimal option" where
  "validate_stop_price u stop_price order_type =
     (let ot = upper u (strip order_type);
          needs_stop = (ot \<in> {py ''STOP_MARKET'', py ''STOP_LIMIT''})
      in if needs_stop \<and> absent stop_price
         then Inl (ValidationError (py ''Stop price (--stop-price) is required for '' @ ot
                     @ py '' orders.''))
         else (case stop_price of
                 None \<Rightarrow> Inr None
               | Some s \<Rightarrow>
                   if strip s = [] then Inr None
                   else (case Decimal u s of
                           Inl e \<Rightarrow>
                             Inl (ValidationError (py ''Invalid stop price '' @ quoted s
                                    @ py ''. Must be a positive number.''))
                         | Inr sp \<Rightarrow>
                             (case le_zero sp of
                                Inl e \<Rightarrow> Inl e
                              | Inr nonpos \<Rightarrow>
                                  if nonpos
                                  then Inl (ValidationError
                                         (py ''Stop price must be greater than zero, got: ''
                                            @ py (str_decimal sp) @ py ''.''))
                                  else Inr (Some sp)))))"

text \<open>
  The dict that \<open>validate_all\<close> returns. Its six entries are evaluated in the order they
  are written, so the first validator that raises decides the exception.
\<close>

record order_params =
  p_symbol :: pystr
  p_side :: pystr
  p_order_type :: pystr
  p_quantity :: decimal
  p_price :: "decimal option"
  p_stop_price :: "decimal option"

definition validate_all ::
  "unicode \<Rightarrow> pystr \<Rightarrow> pystr \<Rightarrow> pystr \<Rightarrow> pystr \<Rightarrow> pystr option \<Rightarrow> pystr option
     \<Rightarrow> exn + order_params" where
  "validate_all u symbol side order_type quantity price stop_price =
     (case validate_symbol u symbol of Inl e \<Rightarrow> Inl e | Inr sy \<Rightarrow>
     (case validate_side u side of Inl e \<Rightarrow> Inl e | Inr si \<Rightarrow>
     (case validate_order_type u order_type of Inl e \<Rightarrow> Inl e | Inr ot \<Rightarrow>
     (case validate_quantity u quantity of Inl e \<Rightarrow> Inl e | Inr q \<Rightarrow>
     (case validate_price u price order_type of Inl e \<Rightarrow> Inl e | Inr p \<Rightarrow>
     (case validate_stop_price u stop_price order_type of Inl e \<Rightarrow> Inl e | Inr sp \<Rightarrow>
        Inr \<lparr>p_symbol = sy, p_side = si, p_order_type = ot, p_quantity = q,
             p_price = p, p_stop_price = sp\<rparr>))))))"

section \<open>bot/client.py\<close>

subsection \<open>Dicts and their URL encoding\<close>

text \<open>
  A parameter dict (\<open>Dict[str, Any]\<close>) is a list of items in insertion order, with values
  that are strings or ints. \<open>d[k] = v\<close> replaces the value of a key that is present and
  leaves the key where it is, and appends a new key at the end; \<open>{**a, **b}\<close> sets the
  items of \<open>b\<close> one after the other in a copy of \<open>a\<close>.
\<close>

datatype pyval = VStr string | VInt int

type_synonym pydict = "(string \<times> pyval) list"

fun dict_set :: "pydict \<Rightarrow> string \<Rightarrow> pyval \<Rightarrow> pydict" where
  "dict_set [] k v = [(k, v)]"
| "dict_set ((k', v') # d) k v =
     (if k' = k then (k, v) # d else (k', v') # dict_set d k v)"

definition dict_merge :: "pydict \<Rightarrow> pydict \<Rightarrow> pydict" where
  "dict_merge a b = foldl (\<lambda>d (k, v). dict_set d k v) a b"

definition str_val :: "pyval \<Rightarrow> string" where
  "str_val v = (case v of VStr s \<Rightarrow> s | VInt i \<Rightarrow> str_int i)"

text \<open>
  \<open>urllib.parse.urlencode\<close> of a dict: \<open>quote_plus(str(k)) + "=" + quote_plus(str(v))\<close> for
  each item, joined by \<open>&\<close>. \<open>quote_plus\<close> keeps letters, digits and \<open>_.-~\<close>, writes a space as
  \<open>+\<close> and every other byte of the UTF-8 encoding as \<open>%XX\<close> in upper-case hexadecimal. A
  character below U+0080 is one byte; one from U+0080 to U+00FF is the two bytes
  \<open>0xC0 + c div 64\<close> and \<open>0x80 + c mod 64\<close>.
\<close>

definition url_safe :: "char \<Rightarrow> bool" where
  "url_safe c =
     (c \<in> set ''ABCDEFGHIJKLMNOPQRSTUVWXYZabcdefghijklmnopqrstuvwxyz0123456789_.-~'')"

definition hex_upper :: "nat \<Rightarrow> char" where
  "hex_upper n = ''0123456789ABCDEF'' ! n"

definition percent :: "nat \<Rightarrow> string" where
  "percent b = [CHR ''%'', hex_upper (b div 16), hex_upper (b mod 16)]"

definition utf8 :: "char \<Rightarrow> nat list" where
  "utf8 c =
     (if (of_char c :: nat) < 128 then [of_char c]
      else [192 + of_char c div 64, 128 + of_char c mod 64])"

definition quote_char :: "char \<Rightarrow> string" where
  "quote_char c =
     (if url_safe c then [c]
      else if c = CHR '' '' then ''+''
      else concat (map percent (utf8 c)))"

definition quote_plus :: "string \<Rightarrow> string" where
  "quote_plus s = concat (map quote_char s)"

fun join :: "string \<Rightarrow> string list \<Rightarrow> string" where
  "join sep [] = []"
| "join sep [x] = x"
| "join sep (x # y # ys) = x @ sep @ join sep (y # ys)"

definition encode_item :: "string \<times> pyval \<Rightarrow> string" where
  "encode_item kv = quote_plus (fst kv) @ ''='' @ quote_plus (str_val (snd kv))"

definition urlencode :: "pydict \<Rightarrow> string" where
  "urlencode d = join ''&'' (map encode_item d)"

subsection \<open>The client and what surrounds it\<close>

text \<open>
  One call of \<open>session.request\<close>: the arguments it is given, and what comes back (one of
  the two exceptions of \<open>requests\<close> that \<open>_request\<close> translates, another failure, or a
  response with its status, its text and its decoded JSON body, if it has one).
\<close>

record http_call =
  c_method :: string
  c_url :: string
  c_params :: "pydict option"
  c_data :: "string option"
  c_timeout :: nat

record http_response =
  status_code :: int
  body_text :: string
  json_body :: "json option"

datatype outcome =
    RequestsConnectionError
  | RequestsTimeout
  | RequestsOtherError
  | Response http_response

text \<open>
  The client holds the credentials, the base URL and the session. The clock
  (\<open>time.time()\<close> in milliseconds, as \<open>_timestamp\<close> returns it) and HMAC-SHA256 (key,
  message, 32-byte digest) come from outside the repository and are parameters.
\<close>

record BinanceClient =
  api_key :: string
  api_secret :: string
  base_url :: string
  session :: "http_call \<Rightarrow> outcome"

record env =
  timestamp :: int
  hmac_sha256 :: "string \<Rightarrow> string \<Rightarrow> 256 word"

definition RECV_WINDOW :: int where
  "RECV_WINDOW = 5000"

definition hex_lower :: "nat \<Rightarrow> char" where
  "hex_lower n = ''0123456789abcdef'' ! n"

text \<open>\<open>hexdigest()\<close>: the 64 nibbles of the digest, most significant first.\<close>

definition hexdigest :: "256 word \<Rightarrow> string" where
  "hexdigest w = map (\<lambda>i. hex_lower (unat (take_bit 4 (drop_bit (4 * (63 - i)) w)))) [0..<64]"

definition sign :: "env \<Rightarrow> BinanceClient \<Rightarrow> pydict \<Rightarrow> string" where
  "sign ev self params = hexdigest (hmac_sha256 ev (api_secret self) (urlencode params))"

text \<open>
  The payload of a signed request: the dict literal
  \<open>{**params, **data, "timestamp": ..., "recvWindow": RECV_WINDOW}\<close>, and then
  \<open>payload["signature"] = self._sign(payload)\<close>.
\<close>

definition payload_fields :: "env \<Rightarrow> pydict \<Rightarrow> pydict \<Rightarrow> pydict" where
  "payload_fields ev params data =
     dict_set (dict_set (dict_merge params data) ''timestamp'' (VInt (timestamp ev)))
       ''recvWindow'' (VInt RECV_WINDOW)"

definition signed_payload :: "env \<Rightarrow> BinanceClient \<Rightarrow> pydict \<Rightarrow> pydict \<Rightarrow> pydict" where
  "signed_payload ev self params data =
     (let payload = payload_fields ev params data
      in dict_set payload ''signature'' (VStr (sign ev self payload)))"

text \<open>
  \<open>_request\<close> up to the call of \<open>session.request\<close>: the arguments of that call. An empty
  dict is passed as \<open>None\<close>. The method is compared after \<open>method.upper()\<close>.
\<close>

definition prepare ::
  "unicode \<Rightarrow> env \<Rightarrow> BinanceClient \<Rightarrow> string \<Rightarrow> string \<Rightarrow> bool \<Rightarrow> pydict \<Rightarrow> pydict
     \<Rightarrow> http_call" where
  "prepare u ev self method endpoint signed_flag params data =
     (let url = base_url self @ endpoint;
          payload = signed_payload ev self params data;
          params' = (if signed_flag
                     then (if upper u (py method) \<in> {py ''GET'', py ''DELETE''}
                           then payload else [])
                     else params);
          data' = (if signed_flag
                   then (if upper u (py method) \<in> {py ''GET'', py ''DELETE''}
                         then [] else payload)
                   else data)
      in \<lparr>c_method = method, c_url = url,
          c_params = (if params' \<noteq> [] then Some params' else None),
          c_data = (if data' \<noteq> [] then Some (urlencode data') else None),
          c_timeout = 10\<rparr>)"

text \<open>\<open>resp.raise_for_status()\<close> raises for a status from 400 to 599.\<close>

definition raise_for_status :: "http_response \<Rightarrow> exn option" where
  "raise_for_status resp =
     (if 400 \<le> status_code resp \<and> status_code resp < 600
      then Some (HTTPError (status_code resp)) else None)"

text \<open>
  \<open>x < 0\<close> on a decoded JSON value: ints, bools (as 0 and 1) and floats compare, a NaN
  compares false, and any other value raises \<open>TypeError\<close>.
\<close>

fun lt_zero :: "json \<Rightarrow> exn + bool" where
  "lt_zero (JInt i) = Inr (i < 0)"
| "lt_zero (JBool b) = Inr False"
| "lt_zero (JFloat (FNum r)) = Inr (r < 0)"
| "lt_zero (JFloat (FInf neg)) = Inr neg"
| "lt_zero (JFloat FNan) = Inr False"
| "lt_zero JNull = Inl TypeError"
| "lt_zero (JStr s) = Inl TypeError"
| "lt_zero (JArr xs) = Inl TypeError"
| "lt_zero (JObj d) = Inl TypeError"

text \<open>\<open>isinstance(body, dict) and "code" in body and body["code"] < 0\<close>.\<close>

definition has_negative_code :: "json \<Rightarrow> exn + bool" where
  "has_negative_code body =
     (case body of
        JObj d \<Rightarrow> (case map_of d ''code'' of None \<Rightarrow> Inr False | Some c \<Rightarrow> lt_zero c)
      | _ \<Rightarrow> Inr False)"

definition dict_get :: "(string \<times> json) list \<Rightarrow> string \<Rightarrow> json \<Rightarrow> json" where
  "dict_get d k dflt = (case map_of d k of None \<Rightarrow> dflt | Some v \<Rightarrow> v)"

text \<open>\<open>_request\<close> from the response on.\<close>

definition read_response :: "http_response \<Rightarrow> exn + json" where
  "read_response resp =
     (case json_body resp of
        None \<Rightarrow>
          (case raise_for_status resp of
             Some e \<Rightarrow> Inl e
           | None \<Rightarrow> Inl JSONDecodeError)
      | Some body \<Rightarrow>
          (case has_negative_code body of
             Inl e \<Rightarrow> Inl e
           | Inr negative \<Rightarrow>
               if negative
               then (case body of
                       JObj d \<Rightarrow>
                         Inl (BinanceAPIError (dict_get d ''code'' JNull)
                                (dict_get d ''msg'' (JStr ''Unknown error''))
                                (status_code resp))
                     | _ \<Rightarrow> Inr body)
               else if status_code resp \<ge> 400
               then (case body of
                       JObj d \<Rightarrow>
                         Inl (BinanceAPIError (dict_get d ''code'' (JInt (status_code resp)))
                                (dict_get d ''msg'' (JStr (body_text resp)))
                                (status_code resp))
                     | _ \<Rightarrow>
                         (case raise_for_status resp of
                            Some e \<Rightarrow> Inl e
                          | None \<Rightarrow> Inr body))
               else Inr body))"

definition request ::
  "unicode \<Rightarrow> env \<Rightarrow> BinanceClient \<Rightarrow> string \<Rightarrow> string \<Rightarrow> bool \<Rightarrow> pydict \<Rightarrow> pydict
     \<Rightarrow> exn + json" where
  "request u ev self method endpoint signed_flag params data =
     (case session self (prepare u ev self method endpoint signed_flag params data) of
        RequestsConnectionError \<Rightarrow>
          Inl (ConnectionError (''Cannot connect to Binance Testnet ('' @ base_url self
                 @ endpoint @ ''). Check your internet.''))
      | RequestsTimeout \<Rightarrow> Inl (TimeoutError ''Request to Binance timed out.'')
      | RequestsOtherError \<Rightarrow> Inl RequestException
      | Response resp \<Rightarrow> read_response resp)"

subsection \<open>Orders\<close>

text \<open>The \<open>data\<close> dict that \<open>BinanceClient.place_order\<close> builds.\<close>

definition order_data ::
  "string \<Rightarrow> string \<Rightarrow> string \<Rightarrow> decimal \<Rightarrow> decimal option \<Rightarrow> decimal option \<Rightarrow> string
     \<Rightarrow> pydict" where
  "order_data symbol side order_type quantity price stop_price time_in_force =
     (let data0 = [(''symbol'', VStr symbol), (''side'', VStr side),
                   (''type'', VStr order_type),
                   (''quantity'', VStr (str_decimal quantity))];
          data1 = (if order_type = ''LIMIT''
                   then (let d = dict_set data0 ''timeInForce'' (VStr time_in_force)
                         in case price of
                              None \<Rightarrow> d
                            | Some p \<Rightarrow> dict_set d ''price'' (VStr (str_decimal p)))
                   else data0)
      in case stop_price of
           None \<Rightarrow> data1
         | Some sp \<Rightarrow> dict_set data1 ''stopPrice'' (VStr (str_decimal sp)))"

text \<open>
  \<open>BinanceClient.place_order\<close>: the signed POST, and then \<open>response.get(...)\<close> for the
  log line, which raises \<open>AttributeError\<close> when the decoded body is not a dict.
\<close>

definition client_place_order ::
  "unicode \<Rightarrow> env \<Rightarrow> BinanceClient \<Rightarrow> string \<Rightarrow> string \<Rightarrow> string \<Rightarrow> decimal
     \<Rightarrow> decimal option \<Rightarrow> decimal option \<Rightarrow> string \<Rightarrow> bool \<Rightarrow> exn + json" where
  "client_place_order u ev self symbol side order_type quantity price stop_price
       time_in_force reduce_only =
     (case request u ev self ''POST'' ''/api/v3/order'' True []
             (order_data symbol side order_type quantity price stop_price time_in_force) of
        Inl e \<Rightarrow> Inl e
      | Inr response \<Rightarrow>
          (case response of
             JObj d \<Rightarrow> Inr response
           | _ \<Rightarrow> Inl AttributeError))"

section \<open>bot/orders.py\<close>

text \<open>
  The error string of an \<open>OrderResult\<close>: the text of a validation or network error, or
  one of the two f-strings whose holes are formatted by \<open>str()\<close> of a decoded JSON value
  or of an exception (\<open>Binance API Error [{code}]: {msg}\<close>, \<open>Unexpected error: {exc}\<close>), kept
  as the values in the holes.
\<close>

datatype message =
    Text pystr
  | ApiErrorText json json
  | UnexpectedText exn

record OrderResult =
  success :: bool
  data :: json
  error :: "message option"

definition failure :: "message \<Rightarrow> OrderResult" where
  "failure m = \<lparr>success = False, data = JObj [], error = Some m\<rparr>"

text \<open>
  The symbol, side and type that \<open>validate_all\<close> returns consist of code points below
  128 (lemma \<open>validated_text\<close>), so they go to the client as strings of characters with
  nothing lost.
\<close>

definition chars :: "pystr \<Rightarrow> string" where
  "chars s = map char_of s"

text \<open>
  \<open>place_order\<close> of \<open>orders.py\<close>. The first \<open>try\<close> catches \<open>ValidationError\<close> only; the
  second one ends in \<open>except Exception\<close>. A result on the left is an exception that leaves
  the function.
\<close>

definition place_order ::
  "unicode \<Rightarrow> env \<Rightarrow> BinanceClient \<Rightarrow> pystr \<Rightarrow> pystr \<Rightarrow> pystr \<Rightarrow> pystr \<Rightarrow> pystr option
     \<Rightarrow> pystr option \<Rightarrow> bool \<Rightarrow> exn + OrderResult" where
  "place_order u ev client symbol side order_type quantity price stop_price reduce_only =
     (case validate_all u symbol side order_type quantity price stop_price of
        Inl e \<Rightarrow>
          (case e of
             ValidationError m \<Rightarrow> Inr (failure (Text m))
           | _ \<Rightarrow> Inl e)
      | Inr params \<Rightarrow>
          (case client_place_order u ev client (chars (p_symbol params))
                  (chars (p_side params)) (chars (p_order_type params)) (p_quantity params)
                  (p_price params) (p_stop_price params) ''GTC'' reduce_only of
             Inr response \<Rightarrow> Inr \<lparr>success = True, data = response, error = None\<rparr>
           | Inl e \<Rightarrow>
               (case e of
                  ValidationError m \<Rightarrow> Inr (failure (Text m))
                | BinanceAPIError code msg status \<Rightarrow> Inr (failure (ApiErrorText code msg))
                | ConnectionError m \<Rightarrow> Inr (failure (Text (py (''Network Error: '' @ m))))
                | TimeoutError m \<Rightarrow> Inr (failure (Text (py (''Network Error: '' @ m))))
                | _ \<Rightarrow> Inr (failure (UnexpectedText e)))))"

section \<open>What the specification says, in its own words\<close>

text \<open>
  A symbol that matches \<^verbatim>\<open>^[A-Z0-9]{3,20}$\<close> as the specification means it: the whole
  string is between 3 and 20 upper-case letters and digits.
\<close>

definition symbol_format :: "pystr \<Rightarrow> bool" where
  "symbol_format t = (3 \<le> length t \<and> length t \<le> 20 \<and> list_all symbol_char t)"

text \<open>
  The number that a decimal numeral denotes, read positionally: an integer part
  \<open>d\<^sub>1 ... d\<^sub>n\<close> is the sum of \<open>d\<^sub>i * 10 ^ (n - i)\<close>, a fractional part \<open>f\<^sub>1 ... f\<^sub>m\<close> is the sum
  of \<open>f\<^sub>j / 10 ^ j\<close>. A plain numeral is an optional sign, digits, and an optional point with
  digits after it, with at least one digit in all: \<open>plain_numeral t neg ip fp\<close> says that
  the text \<open>t\<close> is one, with that sign, integer part and fractional part.
\<close>

fun positional :: "string \<Rightarrow> rat" where
  "positional [] = 0"
| "positional (c # cs) = of_nat (digit_val c) * 10 ^ length cs + positional cs"

fun fractional :: "string \<Rightarrow> rat" where
  "fractional [] = 0"
| "fractional (c # cs) = (of_nat (digit_val c) + fractional cs) / 10"

definition denoted :: "bool \<Rightarrow> string \<Rightarrow> string \<Rightarrow> rat" where
  "denoted neg ip fp = (if neg then - 1 else 1) * (positional ip + fractional fp)"

definition plain_numeral :: "string \<Rightarrow> bool \<Rightarrow> string \<Rightarrow> string \<Rightarrow> bool" where
  "plain_numeral t neg ip fp =
     (list_all is_digit ip \<and> list_all is_digit fp \<and> ip @ fp \<noteq> []
      \<and> t \<in> set [sg @ ip @ pt @ fp.
                   sg \<leftarrow> (if neg then [''-''] else [[], ''+'']),
                   pt \<leftarrow> (if fp = [] then [[], ''.''] else [''.''])])"

text \<open>The characters a plain numeral is written with.\<close>

definition plain_char :: "char \<Rightarrow> bool" where
  "plain_char c = (c \<in> set ''0123456789+-.'')"

text \<open>The rational number that a \<open>Decimal\<close> stands for; an infinity or a NaN stands for none.\<close>

fun dec_value :: "decimal \<Rightarrow> rat option" where
  "dec_value (Finite neg c e) =
     Some ((if neg then - 1 else 1) * of_nat c
             * (if 0 \<le> e then 10 ^ nat e else 1 / 10 ^ nat (- e)))"
| "dec_value (Infinity neg) = None"
| "dec_value (NaN neg sig diag) = None"

text \<open>A string that the decimal constructor reads as a NaN.\<close>

fun is_nan :: "decimal \<Rightarrow> bool" where
  "is_nan (NaN neg sig diag) = True"
| "is_nan (Infinity neg) = False"
| "is_nan (Finite neg c e) = False"

definition reads_nan :: "unicode \<Rightarrow> pystr \<Rightarrow> bool" where
  "reads_nan u s = (case Decimal u s of Inl e \<Rightarrow> False | Inr d \<Rightarrow> is_nan d)"

text \<open>A numeric JSON value that is negative: an int or a float below zero.\<close>

definition negative_number :: "json \<Rightarrow> bool" where
  "negative_number c =
     (case c of
        JInt i \<Rightarrow> i < 0
      | JFloat f \<Rightarrow> (case f of FNum r \<Rightarrow> r < 0 | FInf neg \<Rightarrow> neg | FNan \<Rightarrow> False)
      | _ \<Rightarrow> False)"



section \<open>Inputs for the examples\<close>

text \<open>
  A clock reading, a stand-in for HMAC-SHA256, and a client whose session answers every
  call with the exchange's rejection of an unknown symbol.
\<close>

definition dq :: string where
  "dq = [CHR 0x22]"

definition invalid_symbol_response :: http_response where
  "invalid_symbol_response =
     \<lparr>status_code = 400,
      body_text = ''{'' @ dq @ ''code'' @ dq @ '': -1121, '' @ dq @ ''msg'' @ dq @ '': ''
                    @ dq @ ''Invalid symbol.'' @ dq @ ''}'',
      json_body = Some (JObj [(''code'', JInt (- 1121)), (''msg'', JStr ''Invalid symbol.'')])\<rparr>"

definition example_env :: env where
  "example_env = \<lparr>timestamp = 1700000000000, hmac_sha256 = (\<lambda>key msg. 0)\<rparr>"

definition rejecting_client :: BinanceClient where
  "rejecting_client =
     \<lparr>api_key = ''key'', api_secret = ''secret'',
      base_url = ''https://testnet.binance.vision'',
      session = (\<lambda>call. Response invalid_symbol_response)\<rparr>"

text \<open>
  A Unicode table for the examples: the upper-case mapping of Unicode on the code points
  from U+0080 to U+00FF (U+00B5 goes to U+039C, U+00DF to \<open>SS\<close>, U+00E0..U+00FE other than
  U+00F7 to the code point 32 below, U+00FF to U+0178, and the others stay) and the digit
  values of the Arabic-Indic digits U+0660..U+0669. The examples use no other code point
  from 128 on.
\<close>

definition example_unicode :: unicode where
  "example_unicode =
     \<lparr>to_upper = (\<lambda>c. if c = 0xB5 then [0x39C]
                      else if c = 0xDF then [0x53, 0x53]
                      else if c = 0xFF then [0x178]
                      else if 0xE0 \<le> c \<and> c \<le> 0xFE \<and> c \<noteq> 0xF7 then [c - 32]
                      else [c]),
      to_decimal = (\<lambda>c. if 0x660 \<le> c \<and> c \<le> 0x669 then Some (c - 0x660) else None)\<rparr>"

section \<open>Strings: literals, and what \<open>strip\<close> and \<open>upper\<close> leave\<close>

lemma py_Nil: "py [] = []"
  by (simp add: py_def)

lemma py_append: "py (a @ b) = py a @ py b"
  by (simp add: py_def)

lemma py_eq_iff: "py a = py b \<longleftrightarrow> a = b"
proof -
  have "inj (of_char :: char \<Rightarrow> nat)" by (rule injI) simp
  then have "inj (map (of_char :: char \<Rightarrow> nat))" by simp
  then show ?thesis unfolding py_def by (rule inj_eq)
qed

lemma chars_py: "chars (py s) = s"
  by (simp add: chars_def py_def comp_def)

lemma strip_last: "strip s \<noteq> [] \<Longrightarrow> \<not> is_space (last (strip s))"
proof -
  assume ne: "strip s \<noteq> []"
  let ?r = "dropWhile is_space (rev (dropWhile is_space s))"
  from ne have r: "?r \<noteq> []" by (simp add: strip_def)
  then have "\<not> is_space (hd ?r)" by (rule hd_dropWhile)
  moreover have "last (strip s) = hd ?r" using r by (simp add: strip_def last_rev)
  ultimately show ?thesis by simp
qed

lemma last_concat_map:
  assumes "xs \<noteq> []" and "\<And>x. f x \<noteq> []"
  shows "concat (map f xs) \<noteq> [] \<and> last (concat (map f xs)) = last (f (last xs))"
proof -
  from assms(1) obtain ys y where xs: "xs = ys @ [y]" by (cases xs rule: rev_cases) auto
  show ?thesis using assms(2) [of y] by (simp add: xs)
qed

text \<open>
  When no upper-case form in the table is empty or ends in a line feed, the upper-case
  form of a stripped string does not end in a line feed.
\<close>

lemma upper_char_last:
  assumes "\<And>c. 128 \<le> c \<Longrightarrow> to_upper u c \<noteq> [] \<and> last (to_upper u c) \<noteq> 0x0A"
  shows "upper_char u c \<noteq> [] \<and> (last (upper_char u c) = 0x0A \<longrightarrow> c = 0x0A)"
proof (cases "c < 128")
  case True
  then show ?thesis by (auto simp: upper_char_def)
next
  case False
  with assms [of c] show ?thesis by (simp add: upper_char_def)
qed

lemma upper_strip_last:
  assumes "\<And>c. 128 \<le> c \<Longrightarrow> to_upper u c \<noteq> [] \<and> last (to_upper u c) \<noteq> 0x0A"
  shows "upper u (strip s) = [] \<or> last (upper u (strip s)) \<noteq> 0x0A"
proof (cases "strip s = []")
  case True
  then show ?thesis by (simp add: upper_def)
next
  case False
  then have sp: "\<not> is_space (last (strip s))" by (rule strip_last)
  have ne: "upper_char u c \<noteq> []" for c using upper_char_last [OF assms, of c] by simp
  have "last (upper u (strip s)) = last (upper_char u (last (strip s)))"
    unfolding upper_def using last_concat_map [OF False, of "upper_char u"] ne by simp
  moreover have "last (strip s) \<noteq> 0x0A" using sp by (auto simp: is_space_def)
  ultimately show ?thesis using upper_char_last [OF assms, of "last (strip s)"] by simp
qed

section \<open>The symbol\<close>

lemma SYMBOL_PATTERN_match_iff:
  "SYMBOL_PATTERN_match s \<longleftrightarrow>
     (\<exists>n. 3 \<le> n \<and> n < 21 \<and> n \<le> length s \<and> list_all symbol_char (take n s)
          \<and> (drop n s = [] \<or> drop n s = [0x0A]))"
  unfolding SYMBOL_PATTERN_match_def list_ex_iff set_upt Bex_def atLeastLessThan_iff
  by blast

text \<open>
  The \<open>$\<close> of the pattern also matches before a final newline, so the pattern and the
  format agree on the strings that do not end in a newline.
\<close>

lemma match_is_format:
  assumes "t = [] \<or> last t \<noteq> 0x0A"
  shows "SYMBOL_PATTERN_match t = symbol_format t"
proof
  assume "SYMBOL_PATTERN_match t"
  then obtain n where n: "3 \<le> n" "n < 21" "n \<le> length t" "list_all symbol_char (take n t)"
      and d: "drop n t = [] \<or> drop n t = [0x0A]"
    unfolding SYMBOL_PATTERN_match_iff by blast
  have "drop n t \<noteq> [0x0A]"
  proof
    assume e: "drop n t = [0x0A]"
    then have "t \<noteq> []" by auto
    moreover from e have "n < length t" by (cases "n < length t") auto
    then have "last t = last (drop n t)" by (simp add: last_drop)
    ultimately show False using assms e by simp
  qed
  with d have "drop n t = []" by simp
  with n(3) have "n = length t" by simp
  with n show "symbol_format t" by (simp add: symbol_format_def)
next
  assume "symbol_format t"
  then have "3 \<le> length t" "length t < 21" "list_all symbol_char (take (length t) t)"
      "drop (length t) t = []"
    by (simp_all add: symbol_format_def)
  then show "SYMBOL_PATTERN_match t"
    unfolding SYMBOL_PATTERN_match_iff by (intro exI [of _ "length t"]) simp
qed

text \<open>
  C9. For every input string, \<open>validate_symbol\<close> returns the trimmed, upper-cased form when
  that form consists of 3 to 20 upper-case letters and digits, and raises a
  \<open>ValidationError\<close> for every other input. Trimming and upper-casing are those of Python
  on Unicode strings; of the Unicode table the theorem uses only that no upper-case form of
  a code point from 128 on is empty or ends in a line feed.
\<close>

theorem validate_symbol_spec:
  assumes "\<And>c. 128 \<le> c \<Longrightarrow> to_upper u c \<noteq> [] \<and> last (to_upper u c) \<noteq> 0x0A"
  shows "validate_symbol u s =
     (if symbol_format (upper u (strip s)) then Inr (upper u (strip s))
      else Inl (ValidationError (py ''Invalid symbol '' @ quoted s
                  @ py ''. Expected uppercase alphanumeric (e.g. BTCUSDT).'')))"
proof -
  have "SYMBOL_PATTERN_match (upper u (strip s)) = symbol_format (upper u (strip s))"
    using upper_strip_last [OF assms, of s] by (intro match_is_format) blast
  then show ?thesis by (simp add: validate_symbol_def Let_def)
qed

lemma example_unicode_upper:
  "128 \<le> c \<Longrightarrow> to_upper example_unicode c \<noteq> [] \<and> last (to_upper example_unicode c) \<noteq> 0x0A"
  by (auto simp: example_unicode_def)

theorem validate_symbol_spec_witness:
  "validate_symbol example_unicode ([0xDF] @ py ''tc'') = Inr (py ''SSTC'')
   \<and> validate_symbol example_unicode ([0xA0] @ py ''btcusdt'' @ [0x85]) = Inr (py ''BTCUSDT'')
   \<and> validate_symbol example_unicode (py ''BT'')
       = Inl (ValidationError (py ''Invalid symbol '' @ quoted (py ''BT'')
                @ py ''. Expected uppercase alphanumeric (e.g. BTCUSDT).''))
   \<and> validate_symbol example_unicode ([0xB5] @ py ''btc'')
       = Inl (ValidationError (py ''Invalid symbol '' @ quoted ([0xB5] @ py ''btc'')
                @ py ''. Expected uppercase alphanumeric (e.g. BTCUSDT).''))"
proof -
  have n: "upper example_unicode (strip ([0xDF] @ py ''tc'')) = py ''SSTC''"
      "upper example_unicode (strip ([0xA0] @ py ''btcusdt'' @ [0x85])) = py ''BTCUSDT''"
      "upper example_unicode (strip (py ''BT'')) = py ''BT''"
      "upper example_unicode (strip ([0xB5] @ py ''btc'')) = [0x39C] @ py ''BTC''"
    by (simp_all add: py_def strip_def is_space_def upper_def upper_char_def
          example_unicode_def)
  have f: "symbol_format (py ''SSTC'')" "symbol_format (py ''BTCUSDT'')"
      "\<not> symbol_format (py ''BT'')" "\<not> symbol_format ([0x39C] @ py ''BTC'')"
    by (simp_all add: symbol_format_def symbol_char_def py_def)
  note a = validate_symbol_spec [OF example_unicode_upper, of "[0xDF] @ py ''tc''"]
  note b = validate_symbol_spec [OF example_unicode_upper, of "[0xA0] @ py ''btcusdt'' @ [0x85]"]
  note c = validate_symbol_spec [OF example_unicode_upper, of "py ''BT''"]
  note d = validate_symbol_spec [OF example_unicode_upper, of "[0xB5] @ py ''btc''"]
  show ?thesis using a b c d unfolding n by (simp only: f if_True if_False simp_thms)
qed

section \<open>Required and absent fields\<close>

lemma absent_Some: "absent (Some s) = (strip s = [])"
  by (simp add: absent_def)

lemma absent_None: "absent None"
  by (simp add: absent_def)

lemma le_zero_not_ValidationError [simp]: "le_zero d \<noteq> Inl (ValidationError m)"
  by (cases d) auto

text \<open>
  C7. \<open>validate_price\<close> raises the price-required error exactly when the normalised order
  type is LIMIT or STOP_LIMIT and the price is absent, and returns \<open>None\<close> for an absent price
  with any other type (MARKET and STOP_MARKET among them); \<open>validate_stop_price\<close> does the
  same for the types STOP_MARKET and STOP_LIMIT. The order type is normalised, and a price
  is found absent, by Python's \<open>strip\<close> and \<open>upper\<close> on Unicode strings, whatever the
  Unicode table.
\<close>

theorem required_fields:
  "(validate_price u p ot
      = Inl (ValidationError (py ''Price is required for '' @ upper u (strip ot)
               @ py '' orders.''))
    \<longleftrightarrow> upper u (strip ot) \<in> {py ''LIMIT'', py ''STOP_LIMIT''} \<and> absent p)
   \<and> (absent p \<longrightarrow>
        validate_price u p ot =
          (if upper u (strip ot) \<in> {py ''LIMIT'', py ''STOP_LIMIT''}
           then Inl (ValidationError (py ''Price is required for '' @ upper u (strip ot)
                       @ py '' orders.''))
           else Inr None))
   \<and> (validate_stop_price u p ot
        = Inl (ValidationError (py ''Stop price (--stop-price) is required for ''
                 @ upper u (strip ot) @ py '' orders.''))
      \<longleftrightarrow> upper u (strip ot) \<in> {py ''STOP_MARKET'', py ''STOP_LIMIT''} \<and> absent p)
   \<and> (absent p \<longrightarrow>
        validate_stop_price u p ot =
          (if upper u (strip ot) \<in> {py ''STOP_MARKET'', py ''STOP_LIMIT''}
           then Inl (ValidationError (py ''Stop price (--stop-price) is required for ''
                       @ upper u (strip ot) @ py '' orders.''))
           else Inr None))"
proof (intro conjI)
  show "validate_price u p ot
      = Inl (ValidationError (py ''Price is required for '' @ upper u (strip ot)
               @ py '' orders.''))
    \<longleftrightarrow> upper u (strip ot) \<in> {py ''LIMIT'', py ''STOP_LIMIT''} \<and> absent p"
    by (auto simp: validate_price_def absent_def Let_def py_def
          split: option.splits sum.splits if_splits)
  show "validate_stop_price u p ot
        = Inl (ValidationError (py ''Stop price (--stop-price) is required for ''
                 @ upper u (strip ot) @ py '' orders.''))
      \<longleftrightarrow> upper u (strip ot) \<in> {py ''STOP_MARKET'', py ''STOP_LIMIT''} \<and> absent p"
    by (auto simp: validate_stop_price_def absent_def Let_def py_def
          split: option.splits sum.splits if_splits)
qed (auto simp: validate_price_def validate_stop_price_def absent_def Let_def split: option.splits)

theorem required_fields_witness:
  "absent None \<and> absent (Some [0xA0])
   \<and> validate_price example_unicode None (py ''market'') = Inr None
   \<and> validate_price example_unicode None (py ''stop_market'') = Inr None
   \<and> validate_price example_unicode (Some [0xA0]) (py ''limit'')
       = Inl (ValidationError (py ''Price is required for LIMIT orders.''))
   \<and> validate_price example_unicode None ([0xA0] @ py ''limit'')
       = Inl (ValidationError (py ''Price is required for LIMIT orders.''))
   \<and> validate_stop_price example_unicode None (py ''limit'') = Inr None
   \<and> validate_stop_price example_unicode (Some [0x85]) (py ''stop_market'')
       = Inl (ValidationError (py ''Stop price (--stop-price) is required for STOP_MARKET orders.''))"
proof -
  have n: "upper example_unicode (strip (py ''market'')) = py ''MARKET''"
      "upper example_unicode (strip (py ''limit'')) = py ''LIMIT''"
      "upper example_unicode (strip ([0xA0] @ py ''limit'')) = py ''LIMIT''"
      "upper example_unicode (strip (py ''stop_market'')) = py ''STOP_MARKET''"
    by (simp_all add: py_def strip_def is_space_def upper_def upper_char_def)
  have a: "absent None" "absent (Some [0xA0])" "absent (Some [0x85])"
    by (simp_all add: absent_def strip_def is_space_def)
  have m: "py ''MARKET'' \<notin> {py ''LIMIT'', py ''STOP_LIMIT''}"
      "py ''STOP_MARKET'' \<notin> {py ''LIMIT'', py ''STOP_LIMIT''}"
      "py ''LIMIT'' \<in> {py ''LIMIT'', py ''STOP_LIMIT''}"
      "py ''LIMIT'' \<notin> {py ''STOP_MARKET'', py ''STOP_LIMIT''}"
      "py ''STOP_MARKET'' \<in> {py ''STOP_MARKET'', py ''STOP_LIMIT''}"
    by (simp_all add: py_eq_iff)
  have j: "py ''Price is required for '' @ py ''LIMIT'' @ py '' orders.''
             = py ''Price is required for LIMIT orders.''"
      "py ''Stop price (--stop-price) is required for '' @ py ''STOP_MARKET'' @ py '' orders.''
             = py ''Stop price (--stop-price) is required for STOP_MARKET orders.''"
    by (simp_all add: py_def)
  note t1 = required_fields [of example_unicode None "py ''market''", unfolded n,
      THEN conjunct2, THEN conjunct1, rule_format, OF a(1)]
  note t2 = required_fields [of example_unicode None "py ''stop_market''", unfolded n,
      THEN conjunct2, THEN conjunct1, rule_format, OF a(1)]
  note t3 = required_fields [of example_unicode "Some [0xA0]" "py ''limit''", unfolded n,
      THEN conjunct2, THEN conjunct1, rule_format, OF a(2)]
  note t4 = required_fields [of example_unicode None "[0xA0] @ py ''limit''", unfolded n,
      THEN conjunct2, THEN conjunct1, rule_format, OF a(1)]
  note t5 = required_fields [of example_unicode None "py ''limit''", unfolded n,
      THEN conjunct2, THEN conjunct2, THEN conjunct2, rule_format, OF a(1)]
  note t6 = required_fields [of example_unicode "Some [0x85]" "py ''stop_market''", unfolded n,
      THEN conjunct2, THEN conjunct2, THEN conjunct2, rule_format, OF a(3)]
  show ?thesis
    using a(1,2) t1 t2 t3 t4 t5 t6 by (simp only: m j if_True if_False simp_thms)
qed

text \<open>
  C10. A price or stop price that is empty or consists of whitespace only (any of the code
  points that \<open>str.strip()\<close> removes) is treated exactly like \<open>None\<close>: the field-required
  error for the types that need the field, \<open>None\<close> for the others; the string never reaches
  the decimal constructor.
\<close>

theorem blank_is_absent:
  assumes "strip s = []"
  shows "validate_price u (Some s) ot = validate_price u None ot
       \<and> validate_price u (Some s) ot =
           (if upper u (strip ot) \<in> {py ''LIMIT'', py ''STOP_LIMIT''}
            then Inl (ValidationError (py ''Price is required for '' @ upper u (strip ot)
                        @ py '' orders.''))
            else Inr None)
       \<and> validate_stop_price u (Some s) ot = validate_stop_price u None ot
       \<and> validate_stop_price u (Some s) ot =
           (if upper u (strip ot) \<in> {py ''STOP_MARKET'', py ''STOP_LIMIT''}
            then Inl (ValidationError (py ''Stop price (--stop-price) is required for ''
                        @ upper u (strip ot) @ py '' orders.''))
            else Inr None)"
  using assms
  by (simp add: validate_price_def validate_stop_price_def absent_def Let_def)

theorem blank_is_absent_witness:
  "strip [0xA0, 0x85, 0x20, 0x09, 0x3000] = []
   \<and> validate_price example_unicode (Some [0xA0, 0x85, 0x20, 0x09, 0x3000]) ([0xA0] @ py ''limit'')
       = validate_price example_unicode None ([0xA0] @ py ''limit'')
   \<and> validate_price example_unicode (Some [0xA0, 0x85, 0x20, 0x09, 0x3000]) ([0xA0] @ py ''limit'')
       = Inl (ValidationError (py ''Price is required for LIMIT orders.''))
   \<and> validate_stop_price example_unicode (Some [0xA0, 0x85, 0x20, 0x09, 0x3000])
         ([0xA0] @ py ''limit'')
       = Inr None
   \<and> validate_price example_unicode (Some [0xA0]) (py ''market'') = Inr None"
proof -
  have h: "strip [0xA0, 0x85, 0x20, 0x09, 0x3000] = []" "strip [0xA0] = []"
    by (simp_all add: strip_def is_space_def)
  have n: "upper example_unicode (strip ([0xA0] @ py ''limit'')) = py ''LIMIT''"
      "upper example_unicode (strip (py ''market'')) = py ''MARKET''"
    by (simp_all add: py_def strip_def is_space_def upper_def upper_char_def)
  have m: "py ''LIMIT'' \<in> {py ''LIMIT'', py ''STOP_LIMIT''}"
      "py ''LIMIT'' \<notin> {py ''STOP_MARKET'', py ''STOP_LIMIT''}"
      "py ''MARKET'' \<notin> {py ''LIMIT'', py ''STOP_LIMIT''}"
    by (simp_all add: py_eq_iff)
  have j: "py ''Price is required for '' @ py ''LIMIT'' @ py '' orders.''
             = py ''Price is required for LIMIT orders.''"
    by (simp add: py_def)
  note t = blank_is_absent [OF h(1), of example_unicode "[0xA0] @ py ''limit''", unfolded n]
  note t1 = t [THEN conjunct1]
  note t2 = t [THEN conjunct2, THEN conjunct1]
  note t4 = t [THEN conjunct2, THEN conjunct2, THEN conjunct2]
  note t5 = blank_is_absent [OF h(2), of example_unicode "py ''market''", unfolded n,
      THEN conjunct2, THEN conjunct1]
  show ?thesis
    using h(1) t1 t2 t4 t5 by (simp only: m j if_True if_False simp_thms)
qed

section \<open>The decimal constructor on ASCII text\<close>

lemma those_map_Some: "those (map Some xs) = Some xs"
  by (induction xs) simp_all

lemma underscore_code: "(of_char c = (95::nat)) = (c = CHR ''_'')"
proof -
  have "(of_char c = (of_char CHR ''_'' :: nat)) = (c = CHR ''_'')" by (rule of_char_eq_iff)
  then show ?thesis by simp
qed

lemma ascii_char_of_char:
  "0 < (of_char c :: nat) \<Longrightarrow> (of_char c :: nat) < 128 \<Longrightarrow> ascii_char u (of_char c) = Some c"
  by (simp add: ascii_char_def)

text \<open>
  On a string whose stripped form is ASCII text without NUL, the constructor reads that
  text, without its underscores and in upper case; the Unicode table is not consulted.
\<close>

lemma numeric_as_ascii_py:
  assumes "strip s = py t"
    and "list_all (\<lambda>c. 0 < (of_char c :: nat) \<and> (of_char c :: nat) < 128) t"
  shows "numeric_as_ascii u s = Some (filter (\<lambda>c. c \<noteq> CHR ''_'') t)"
proof -
  have "map (ascii_char u) (filter (\<lambda>c. c \<noteq> 95) (py t))
          = map Some (filter (\<lambda>c. c \<noteq> CHR ''_'') t)"
    using assms(2)
    by (induction t) (simp_all add: py_def underscore_code ascii_char_of_char)
  then show ?thesis by (simp add: numeric_as_ascii_def assms(1) those_map_Some)
qed

lemma Decimal_ascii:
  assumes "strip s = py t"
    and "list_all (\<lambda>c. 0 < (of_char c :: nat) \<and> (of_char c :: nat) < 128) t"
  shows "Decimal u s =
           (case parse_numeric (ascii_upper (filter (\<lambda>c. c \<noteq> CHR ''_'') t)) of
              None \<Rightarrow> Inl InvalidOperation
            | Some d \<Rightarrow> Inr d)"
  by (simp add: Decimal_def numeric_as_ascii_py [OF assms])

lemma strip_examples:
  "strip (py ''50000'') = py ''50000''"
  "strip (py ''49000'') = py ''49000''"
  "strip (py ''1'') = py ''1''"
  "strip (py ''0.001'') = py ''0.001''"
  "strip (py '' 0.00010000 '') = py ''0.00010000''"
  "strip (py ''NaN'') = py ''NaN''"
  "strip (py ''sNaN'') = py ''sNaN''"
  "strip (py ''Infinity'') = py ''Infinity''"
  "strip (py ''inf'') = py ''inf''"
  "strip (py ''+INF'') = py ''+INF''"
  "strip (py ''1e1000000000000000000'') = py ''1e1000000000000000000''"
  "strip (py ''1e999999999999999999'') = py ''1e999999999999999999''"
  by (simp_all add: py_def strip_def is_space_def)

lemma Decimal_examples:
  "Decimal u (py ''50000'') = Inr (Finite False 50000 0)"
  "Decimal u (py ''49000'') = Inr (Finite False 49000 0)"
  "Decimal u (py ''1'') = Inr (Finite False 1 0)"
  "Decimal u (py ''0.001'') = Inr (Finite False 1 (- 3))"
  "Decimal u (py '' 0.00010000 '') = Inr (Finite False 10000 (- 8))"
  by (simp_all add: Decimal_ascii [OF strip_examples(1)] Decimal_ascii [OF strip_examples(2)]
        Decimal_ascii [OF strip_examples(3)] Decimal_ascii [OF strip_examples(4)]
        Decimal_ascii [OF strip_examples(5)]
        ascii_upper_def ascii_upper_char_def parse_numeric_def parse_finite_def is_digit_def
        nat_of_digits_def digit_val_def representable_def MAX_PREC_def MAX_EMAX_def
        MIN_ETINY_def str_nat.simps Let_def)

lemma Decimal_specials:
  "Decimal u (py ''NaN'') = Inr (NaN False False 0)"
  "Decimal u (py ''sNaN'') = Inr (NaN False True 0)"
  "Decimal u (py ''Infinity'') = Inr (Infinity False)"
  "Decimal u (py ''inf'') = Inr (Infinity False)"
  "Decimal u (py ''+INF'') = Inr (Infinity False)"
  by (simp_all add: Decimal_ascii [OF strip_examples(6)] Decimal_ascii [OF strip_examples(7)]
        Decimal_ascii [OF strip_examples(8)] Decimal_ascii [OF strip_examples(9)]
        Decimal_ascii [OF strip_examples(10)]
        ascii_upper_def ascii_upper_char_def parse_numeric_def parse_finite_def
        parse_special_def diagnostic_def is_digit_def nat_of_digits_def Let_def)

text \<open>
  The limits of the constructor and its reading of Unicode digits, at examples: the
  largest adjusted exponent, one above it, and the Arabic-Indic numeral for twelve.
\<close>

lemma Decimal_limits:
  "Decimal u (py ''1e999999999999999999'') = Inr (Finite False 1 999999999999999999)"
  "Decimal u (py ''1e1000000000000000000'') = Inl InvalidOperation"
  by (simp_all add: Decimal_ascii [OF strip_examples(11)] Decimal_ascii [OF strip_examples(12)]
        ascii_upper_def ascii_upper_char_def parse_numeric_def parse_finite_def
        parse_special_def parse_exponent_def is_digit_def
        nat_of_digits_def digit_val_def representable_def MAX_PREC_def MAX_EMAX_def
        MIN_ETINY_def str_nat.simps Let_def)

lemma Decimal_unicode_digits:
  "Decimal example_unicode [0x661, 0x662] = Inr (Finite False 12 0)"
  by (simp add: Decimal_def numeric_as_ascii_def ascii_char_def strip_def is_space_def
        example_unicode_def digit_char_def ascii_upper_def ascii_upper_char_def
        parse_numeric_def parse_finite_def is_digit_def nat_of_digits_def digit_val_def
        representable_def MAX_PREC_def MAX_EMAX_def MIN_ETINY_def str_nat.simps Let_def)

section \<open>An order that passes the first three validators\<close>

lemma normal_examples:
  "upper u (strip (py ''BTCUSDT'')) = py ''BTCUSDT''"
  "upper u (strip (py ''btcusdt'')) = py ''BTCUSDT''"
  "upper u (strip (py ''BUY'')) = py ''BUY''"
  "upper u (strip (py ''buy'')) = py ''BUY''"
  "upper u (strip (py ''MARKET'')) = py ''MARKET''"
  "upper u (strip (py ''market'')) = py ''MARKET''"
  "upper u (strip (py ''LIMIT'')) = py ''LIMIT''"
  "upper u (strip (py ''STOP_LIMIT'')) = py ''STOP_LIMIT''"
  by (simp_all add: py_def strip_def is_space_def upper_def upper_char_def)

lemma SYMBOL_PATTERN_match_BTCUSDT: "SYMBOL_PATTERN_match (py ''BTCUSDT'')"
  by (simp add: SYMBOL_PATTERN_match_def symbol_char_def py_def)

lemma validate_examples:
  "validate_symbol u (py ''BTCUSDT'') = Inr (py ''BTCUSDT'')"
  "validate_symbol u (py ''btcusdt'') = Inr (py ''BTCUSDT'')"
  "validate_side u (py ''BUY'') = Inr (py ''BUY'')"
  "validate_side u (py ''buy'') = Inr (py ''BUY'')"
  "validate_order_type u (py ''MARKET'') = Inr (py ''MARKET'')"
  "validate_order_type u (py ''market'') = Inr (py ''MARKET'')"
  "validate_order_type u (py ''STOP_LIMIT'') = Inr (py ''STOP_LIMIT'')"
  by (simp_all add: validate_symbol_def validate_side_def validate_order_type_def Let_def
        normal_examples SYMBOL_PATTERN_match_BTCUSDT py_eq_iff)

lemma absent_examples:
  "absent None" "\<not> absent (Some (py ''50000''))" "\<not> absent (Some (py ''49000''))"
  by (simp_all add: absent_def strip_examples) (simp_all add: py_def)

lemma market_needs_nothing:
  "validate_price u None (py ''MARKET'') = Inr None"
  "validate_stop_price u None (py ''MARKET'') = Inr None"
  "validate_price u None (py ''market'') = Inr None"
  "validate_stop_price u None (py ''market'') = Inr None"
  by (simp_all add: validate_price_def validate_stop_price_def Let_def normal_examples
        py_eq_iff)

section \<open>The request envelope\<close>

lemma dict_set_not_Nil [simp]: "dict_set d k v \<noteq> []"
  by (cases d) (auto split: if_splits)

lemma signed_payload_not_Nil [simp]: "signed_payload ev self query body \<noteq> []"
  by (simp add: signed_payload_def Let_def)

text \<open>
  C5. A signed request with method GET or DELETE (compared in upper case) hands the whole
  signed mapping to the session as query parameters, with no body; with any other method
  it hands over the URL-encoded signed mapping as the body, with no query parameters.
\<close>

theorem signed_dispatch:
  "prepare u ev self method endpoint True query body =
     (if upper u (py method) \<in> {py ''GET'', py ''DELETE''}
      then \<lparr>c_method = method, c_url = base_url self @ endpoint,
            c_params = Some (signed_payload ev self query body),
            c_data = None, c_timeout = 10\<rparr>
      else \<lparr>c_method = method, c_url = base_url self @ endpoint,
            c_params = None,
            c_data = Some (urlencode (signed_payload ev self query body)),
            c_timeout = 10\<rparr>)"
  by (simp add: prepare_def Let_def)

lemma negative_number_lt_zero: "negative_number c \<Longrightarrow> lt_zero c = Inr True"
  by (cases c rule: lt_zero.cases) (auto simp: negative_number_def)

text \<open>
  C6. When the decoded body of the response is a dict with a negative numeric \<open>code\<close>,
  \<open>_request\<close> raises \<open>BinanceAPIError\<close> with that code, the body's \<open>msg\<close>
  (\<open>Unknown error\<close> when it has none) and the HTTP status.
\<close>

theorem negative_code_raises:
  assumes "session self (prepare u ev self method endpoint sf query body) = Response resp"
    and "json_body resp = Some (JObj d)"
    and "map_of d ''code'' = Some c"
    and "negative_number c"
  shows "request u ev self method endpoint sf query body
           = Inl (BinanceAPIError c (dict_get d ''msg'' (JStr ''Unknown error''))
                    (status_code resp))"
  using assms
  by (simp add: request_def read_response_def has_negative_code_def dict_get_def
        negative_number_lt_zero)

theorem negative_code_raises_witness:
  "request example_unicode example_env rejecting_client ''GET'' ''/api/v3/openOrders'' True
     [(''symbol'', VStr ''NOPE'')] []
   = Inl (BinanceAPIError (JInt (- 1121)) (JStr ''Invalid symbol.'') 400)"
  using negative_code_raises
    [of rejecting_client example_unicode example_env "''GET''" "''/api/v3/openOrders''" True
        "[(''symbol'', VStr ''NOPE'')]" "[]" invalid_symbol_response
        "[(''code'', JInt (- 1121)), (''msg'', JStr ''Invalid symbol.'')]" "JInt (- 1121)"]
  by (simp add: negative_number_def dict_get_def rejecting_client_def
        invalid_symbol_response_def)

section \<open>A NaN quantity\<close>

lemma validate_quantity_NaN:
  "validate_quantity u (py ''NaN'') = Inl InvalidOperation"
  "validate_quantity u (py ''sNaN'') = Inl InvalidOperation"
  by (simp_all add: validate_quantity_def Decimal_specials)

text \<open>
  C2. \<open>validate_all\<close> lets an exception other than \<open>ValidationError\<close> out: the quantity
  \<open>NaN\<close> is accepted by the decimal constructor, and the comparison \<open>qty <= 0\<close>, which
  stands after the \<open>try\<close>, raises \<open>InvalidOperation\<close>.
\<close>

theorem validate_all_NaN:
  "validate_all u (py ''BTCUSDT'') (py ''BUY'') (py ''MARKET'') (py ''NaN'') None None
     = Inl InvalidOperation"
  by (simp add: validate_all_def validate_examples validate_quantity_NaN)

text \<open>
  C3. \<open>place_order\<close> of \<open>orders.py\<close> lets that exception through: its first \<open>try\<close> catches
  \<open>ValidationError\<close> only.
\<close>

theorem place_order_NaN:
  "place_order u ev client (py ''BTCUSDT'') (py ''BUY'') (py ''MARKET'') (py ''NaN'') None None
       False
     = Inl InvalidOperation"
proof -
  have "validate_all u (py ''BTCUSDT'') (py ''BUY'') (py ''MARKET'') (py ''NaN'') None None
          = Inl InvalidOperation"
    by (simp add: validate_all_def validate_examples validate_quantity_NaN)
  then show ?thesis by (simp add: place_order_def)
qed

section \<open>The price of a STOP_LIMIT order\<close>

text \<open>
  C1. The payload of a STOP_LIMIT order with a validated price has no \<open>price\<close> key (and
  no \<open>timeInForce\<close>): \<open>BinanceClient.place_order\<close> sets both for the type LIMIT only.
\<close>

theorem stop_limit_price_dropped:
  "validate_all u (py ''BTCUSDT'') (py ''BUY'') (py ''STOP_LIMIT'') (py ''1'')
       (Some (py ''50000'')) (Some (py ''49000''))
     = Inr \<lparr>p_symbol = py ''BTCUSDT'', p_side = py ''BUY'', p_order_type = py ''STOP_LIMIT'',
            p_quantity = Finite False 1 0, p_price = Some (Finite False 50000 0),
            p_stop_price = Some (Finite False 49000 0)\<rparr>
   \<and> chars (py ''BTCUSDT'') = ''BTCUSDT'' \<and> chars (py ''BUY'') = ''BUY''
   \<and> chars (py ''STOP_LIMIT'') = ''STOP_LIMIT''
   \<and> map fst (signed_payload ev self []
        (order_data ''BTCUSDT'' ''BUY'' ''STOP_LIMIT'' (Finite False 1 0)
           (Some (Finite False 50000 0)) (Some (Finite False 49000 0)) ''GTC''))
     = [''symbol'', ''side'', ''type'', ''quantity'', ''stopPrice'', ''timestamp'',
        ''recvWindow'', ''signature'']
   \<and> map_of (signed_payload ev self []
        (order_data ''BTCUSDT'' ''BUY'' ''STOP_LIMIT'' (Finite False 1 0)
           (Some (Finite False 50000 0)) (Some (Finite False 49000 0)) ''GTC'')) ''price''
     = None"
proof -
  have q: "validate_quantity u (py ''1'') = Inr (Finite False 1 0)"
    by (simp add: validate_quantity_def Decimal_examples)
  have p: "validate_price u (Some (py ''50000'')) (py ''STOP_LIMIT'')
             = Inr (Some (Finite False 50000 0))"
    using absent_examples(2)
    by (simp add: validate_price_def absent_def Let_def Decimal_examples)
  have sp: "validate_stop_price u (Some (py ''49000'')) (py ''STOP_LIMIT'')
              = Inr (Some (Finite False 49000 0))"
    using absent_examples(3)
    by (simp add: validate_stop_price_def absent_def Let_def Decimal_examples)
  have "validate_all u (py ''BTCUSDT'') (py ''BUY'') (py ''STOP_LIMIT'') (py ''1'')
       (Some (py ''50000'')) (Some (py ''49000''))
     = Inr \<lparr>p_symbol = py ''BTCUSDT'', p_side = py ''BUY'', p_order_type = py ''STOP_LIMIT'',
            p_quantity = Finite False 1 0, p_price = Some (Finite False 50000 0),
            p_stop_price = Some (Finite False 49000 0)\<rparr>"
    by (simp add: validate_all_def validate_examples q p sp)
  then show ?thesis
    by (simp add: chars_py signed_payload_def payload_fields_def order_data_def dict_merge_def
          Let_def)
qed

section \<open>The signed payload\<close>




























section \<open>Decimal fields\<close>

lemma foldl_digits:
  "foldl (\<lambda>a c. 10 * a + digit_val c) a ds = a * 10 ^ length ds + nat_of_digits ds"
proof (induction ds arbitrary: a)
  case Nil
  then show ?case by (simp add: nat_of_digits_def)
next
  case (Cons c cs)
  have "nat_of_digits (c # cs) = foldl (\<lambda>a c. 10 * a + digit_val c) (digit_val c) cs"
    by (simp add: nat_of_digits_def)
  also have "\<dots> = digit_val c * 10 ^ length cs + nat_of_digits cs" by (rule Cons.IH)
  finally have n: "nat_of_digits (c # cs) = digit_val c * 10 ^ length cs + nat_of_digits cs" .
  have "foldl (\<lambda>a c. 10 * a + digit_val c) a (c # cs)
          = (10 * a + digit_val c) * 10 ^ length cs + nat_of_digits cs"
    by (simp add: Cons.IH)
  with n show ?case by (simp add: algebra_simps)
qed

lemma nat_of_digits_Cons:
  "nat_of_digits (c # cs) = digit_val c * 10 ^ length cs + nat_of_digits cs"
  using foldl_digits [of "digit_val c" cs] by (simp add: nat_of_digits_def)

lemma nat_of_digits_append:
  "nat_of_digits (xs @ ys) = nat_of_digits xs * 10 ^ length ys + nat_of_digits ys"
  using foldl_digits [of "nat_of_digits xs" ys] by (simp add: nat_of_digits_def)

lemma nat_of_digits_Nil: "nat_of_digits [] = 0"
  by (simp add: nat_of_digits_def)

lemma positional_eq: "positional ds = of_nat (nat_of_digits ds)"
  by (induction ds) (simp_all add: nat_of_digits_Cons nat_of_digits_Nil)

lemma fractional_eq: "fractional ds = of_nat (nat_of_digits ds) / 10 ^ length ds"
  by (induction ds) (simp_all add: nat_of_digits_Cons nat_of_digits_Nil field_simps)

lemma dec_value_plain:
  "dec_value (Finite neg (nat_of_digits (ip @ fp)) (- int (length fp)))
     = Some (denoted neg ip fp)"
  by (cases "fp = []")
     (simp_all add: denoted_def positional_eq fractional_eq nat_of_digits_append
        nat_of_digits_Nil field_simps)

lemma denoted_positive:
  "0 < denoted neg ip fp \<longleftrightarrow> \<not> neg \<and> nat_of_digits (ip @ fp) \<noteq> 0"
proof -
  have "positional ip + fractional fp
          = of_nat (nat_of_digits (ip @ fp)) / 10 ^ length fp"
    by (simp add: positional_eq fractional_eq nat_of_digits_append field_simps)
  moreover have "0 < (of_nat n :: rat) / 10 ^ m \<longleftrightarrow> n \<noteq> 0" for n m :: nat
    by (simp add: zero_less_divide_iff)
  moreover have "\<not> (of_nat n :: rat) / 10 ^ m < 0" for n m :: nat
    by (simp add: divide_less_0_iff)
  ultimately show ?thesis by (auto simp: denoted_def)
qed

text \<open>A numeral of \<open>k\<close> digits is below \<open>10 ^ k\<close>, and is written back with at most \<open>k\<close> digits.\<close>

lemma digit_val_le: "is_digit c \<Longrightarrow> digit_val c \<le> 9"
  unfolding is_digit_def digit_val_def by (simp, elim disjE) simp_all

lemma nat_of_digits_less: "list_all is_digit ds \<Longrightarrow> nat_of_digits ds < 10 ^ length ds"
proof (induction ds)
  case Nil
  then show ?case by (simp add: nat_of_digits_Nil)
next
  case (Cons c cs)
  then have "digit_val c \<le> 9" and "nat_of_digits cs < 10 ^ length cs"
    by (simp_all add: digit_val_le)
  then have "digit_val c * 10 ^ length cs + nat_of_digits cs < 9 * 10 ^ length cs + 10 ^ length cs"
    by (intro add_le_less_mono mult_right_mono) simp_all
  then show ?case by (simp add: nat_of_digits_Cons)
qed

lemma length_str_nat: "n < 10 ^ k \<Longrightarrow> 0 < k \<Longrightarrow> length (str_nat n) \<le> k"
proof (induction n arbitrary: k rule: str_nat.induct)
  case (1 n)
  show ?case
  proof (cases "n < 10")
    case True
    with "1.prems" show ?thesis by (subst str_nat.simps) simp
  next
    case False
    obtain j where k: "k = Suc j" using "1.prems"(2) by (cases k) auto
    from False "1.prems"(1) have j: "0 < j" unfolding k by (cases j) auto
    from "1.prems"(1) have "n div 10 < 10 ^ j" unfolding k by (simp add: less_mult_imp_div_less)
    from "1.IH" [OF False this j] show ?thesis
      using False by (subst str_nat.simps) (simp add: k)
  qed
qed

lemma length_str_nat_digits:
  "list_all is_digit ds \<Longrightarrow> ds \<noteq> [] \<Longrightarrow> length (str_nat (nat_of_digits ds)) \<le> length ds"
  by (intro length_str_nat nat_of_digits_less) simp_all

lemma representable_plain:
  assumes "list_all is_digit ds" and "ds \<noteq> []" and "length ds \<le> MAX_PREC"
    and "m \<le> length ds"
  shows "representable (nat_of_digits ds) (- int m)"
proof -
  have "length (str_nat (nat_of_digits ds)) \<le> length ds"
    using assms(1,2) by (rule length_str_nat_digits)
  with assms(3,4) have "length (str_nat (nat_of_digits ds)) \<le> MAX_PREC" "m \<le> MAX_PREC"
    by simp_all
  then show ?thesis
    by (simp add: representable_def MAX_PREC_def MAX_EMAX_def MIN_ETINY_def)
qed

lemma takeWhile_digits:
  assumes "list_all is_digit ip" and "r = [] \<or> \<not> is_digit (hd r)"
  shows "takeWhile is_digit (ip @ r) = ip" and "dropWhile is_digit (ip @ r) = r"
proof -
  from assms(1) have all: "\<And>x. x \<in> set ip \<Longrightarrow> is_digit x" by (simp add: list_all_iff)
  from assms(2) have "takeWhile is_digit r = []" by (simp add: takeWhile_eq_Nil_iff)
  then show "takeWhile is_digit (ip @ r) = ip" by (simp add: takeWhile_append2 all)
  from assms(2) have "dropWhile is_digit r = r" by (simp add: dropWhile_eq_self_iff)
  then show "dropWhile is_digit (ip @ r) = r" by (simp add: dropWhile_append2 all)
qed

lemma not_digit_point [simp]: "\<not> is_digit CHR ''.''"
  by (simp add: is_digit_def)

lemma parse_finite_plain:
  assumes ip: "list_all is_digit ip" and fp: "list_all is_digit fp" and ne: "ip @ fp \<noteq> []"
    and pt: "pt = ''.'' \<or> (pt = [] \<and> fp = [])"
    and len: "length (ip @ fp) \<le> MAX_PREC"
  shows "parse_finite neg (ip @ pt @ fp)
           = Some (Finite neg (nat_of_digits (ip @ fp)) (- int (length fp)))"
proof -
  have b: "takeWhile is_digit fp = fp" "dropWhile is_digit fp = []"
    using takeWhile_digits [OF fp, of "[]"] by simp_all
  have "list_all is_digit (ip @ fp)" using ip fp by simp
  then have r: "representable (nat_of_digits (ip @ fp)) (- int (length fp))"
    using ne len by (rule representable_plain) simp
  have l: "length fp \<le> MAX_PREC" using len by simp
  from pt show ?thesis
  proof
    assume dot: "pt = ''.''"
    have a: "takeWhile is_digit (ip @ CHR ''.'' # fp) = ip"
        "dropWhile is_digit (ip @ CHR ''.'' # fp) = CHR ''.'' # fp"
      using takeWhile_digits [OF ip, of "CHR ''.'' # fp"] by simp_all
    have "parse_finite neg (ip @ CHR ''.'' # fp)
           = Some (Finite neg (nat_of_digits (ip @ fp)) (- int (length fp)))"
      unfolding parse_finite_def a Let_def using ne r l by (simp add: b)
    then show ?thesis by (simp add: dot)
  next
    assume "pt = [] \<and> fp = []"
    then have e: "pt = []" "fp = []" by simp_all
    have a: "takeWhile is_digit ip = ip" "dropWhile is_digit ip = []"
      using takeWhile_digits [OF ip, of "[]"] by simp_all
    have "parse_finite neg ip = Some (Finite neg (nat_of_digits ip) 0)"
      unfolding parse_finite_def a Let_def using ne e r l by simp
    then show ?thesis by (simp add: e)
  qed
qed

lemma parse_sign_plain:
  assumes "r \<noteq> []" and "hd r \<noteq> CHR ''-''" and "hd r \<noteq> CHR ''+''"
  shows "parse_sign r = (False, r)"
    and "parse_sign (''+'' @ r) = (False, r)"
    and "parse_sign (''-'' @ r) = (True, r)"
proof -
  from assms obtain c cs where r: "r = c # cs" "c \<noteq> CHR ''-''" "c \<noteq> CHR ''+''"
    by (cases r) auto
  show "parse_sign r = (False, r)" by (simp add: r)
  show "parse_sign (''+'' @ r) = (False, r)" by simp
  show "parse_sign (''-'' @ r) = (True, r)" by simp
qed

lemma digit_plain: "is_digit c \<Longrightarrow> plain_char c"
  unfolding is_digit_def plain_char_def by (elim rev_subsetD) simp

lemma digits_plain: "list_all is_digit ds \<Longrightarrow> list_all plain_char ds"
  unfolding list_all_iff using digit_plain by blast

lemma plain_char_fixed: "plain_char c \<Longrightarrow> ascii_upper_char c = c \<and> c \<noteq> CHR ''_''"
  unfolding plain_char_def ascii_upper_char_def by (simp, elim disjE) simp_all

lemma plain_char_ascii: "plain_char c \<Longrightarrow> 0 < (of_char c :: nat) \<and> (of_char c :: nat) < 128"
  unfolding plain_char_def by (simp, elim disjE) simp_all

lemma normal_plain:
  "list_all plain_char t \<Longrightarrow> ascii_upper (filter (\<lambda>c. c \<noteq> CHR ''_'') t) = t"
proof (induction t)
  case Nil
  then show ?case by (simp add: ascii_upper_def)
next
  case (Cons c t)
  then have "ascii_upper_char c = c" "c \<noteq> CHR ''_''"
      "ascii_upper (filter (\<lambda>c. c \<noteq> CHR ''_'') t) = t"
    using plain_char_fixed [of c] by simp_all
  then show ?case by (simp add: ascii_upper_def)
qed

lemma plain_numeral_text:
  assumes "plain_numeral t neg ip fp"
  shows "\<exists>sg pt. t = sg @ ip @ pt @ fp
           \<and> ((neg \<and> sg = ''-'') \<or> (\<not> neg \<and> (sg = [] \<or> sg = ''+'')))
           \<and> (pt = ''.'' \<or> (pt = [] \<and> fp = []))"
proof -
  let ?sgs = "if neg then [''-''] else [[], ''+'']"
  let ?pts = "if fp = [] then [[], ''.''] else [''.'']"
  from assms have "t \<in> set [sg @ ip @ pt @ fp. sg \<leftarrow> ?sgs, pt \<leftarrow> ?pts]"
    by (simp only: plain_numeral_def)
  then have "\<exists>sg \<in> set ?sgs. \<exists>pt \<in> set ?pts. t = sg @ ip @ pt @ fp"
    unfolding set_concat by auto
  then obtain sg pt where "sg \<in> set ?sgs" "pt \<in> set ?pts" "t = sg @ ip @ pt @ fp"
    by blast
  then have "t = sg @ ip @ pt @ fp
           \<and> ((neg \<and> sg = ''-'') \<or> (\<not> neg \<and> (sg = [] \<or> sg = ''+'')))
           \<and> (pt = ''.'' \<or> (pt = [] \<and> fp = []))"
    by (auto split: if_splits)
  then show ?thesis by blast
qed

lemma Decimal_plain:
  assumes s: "strip s = py t" and pn: "plain_numeral t neg ip fp"
    and len: "length (ip @ fp) \<le> MAX_PREC"
  shows "Decimal u s = Inr (Finite neg (nat_of_digits (ip @ fp)) (- int (length fp)))"
proof -
  from pn have ip: "list_all is_digit ip" and fp: "list_all is_digit fp"
    and ne: "ip @ fp \<noteq> []"
    by (simp_all add: plain_numeral_def)
  from plain_numeral_text [OF pn] obtain sg pt where t: "t = sg @ ip @ pt @ fp"
    and sg: "(neg \<and> sg = ''-'') \<or> (\<not> neg \<and> (sg = [] \<or> sg = ''+''))"
    and pt: "pt = ''.'' \<or> (pt = [] \<and> fp = [])"
    by blast
  let ?r = "ip @ pt @ fp"
  have plain: "list_all plain_char t"
    unfolding t using sg pt digits_plain [OF ip] digits_plain [OF fp]
    by (auto simp: plain_char_def)
  then have ascii: "list_all (\<lambda>c. 0 < (of_char c :: nat) \<and> (of_char c :: nat) < 128) t"
    unfolding list_all_iff using plain_char_ascii by blast
  have r: "?r \<noteq> []" using ne by auto
  have "is_digit (hd ?r) \<or> hd ?r = CHR ''.''"
  proof (cases ip)
    case Nil
    with ne pt show ?thesis by auto
  next
    case (Cons c cs)
    with ip show ?thesis by simp
  qed
  then have h: "hd ?r \<noteq> CHR ''-''" "hd ?r \<noteq> CHR ''+''"
    by (auto simp: is_digit_def)
  have "parse_sign (sg @ ?r) = (neg, ?r)"
    using sg parse_sign_plain [OF r h] by auto
  then have "parse_numeric t
               = Some (Finite neg (nat_of_digits (ip @ fp)) (- int (length fp)))"
    unfolding t by (simp add: parse_numeric_def parse_finite_plain [OF ip fp ne pt len])
  then show ?thesis by (simp add: Decimal_ascii [OF s ascii] normal_plain [OF plain])
qed

lemma plain_numeral_present: "plain_numeral t neg ip fp \<Longrightarrow> py t \<noteq> []"
  by (auto simp: plain_numeral_def py_def split: if_splits)

text \<open>
  A plain decimal numeral of at most \<open>MAX_PREC\<close> digits, with whitespace around it or
  not, is read exactly: the \<open>Decimal\<close> that the constructor returns stands for the rational
  number the numeral denotes. The three numeric validators return it when that number is
  positive and raise a \<open>ValidationError\<close> when it is zero or negative.
\<close>

theorem plain_numeral_exact:
  assumes "strip s = py t" and "plain_numeral t neg ip fp"
    and "length (ip @ fp) \<le> MAX_PREC"
  shows "\<exists>d. Decimal u s = Inr d \<and> dec_value d = Some (denoted neg ip fp)
           \<and> validate_quantity u s =
               (if 0 < denoted neg ip fp then Inr d
                else Inl (ValidationError (py ''Quantity must be greater than zero, got: ''
                            @ py (str_decimal d) @ py ''.'')))
           \<and> validate_price u (Some s) ot =
               (if 0 < denoted neg ip fp then Inr (Some d)
                else Inl (ValidationError (py ''Price must be greater than zero, got: ''
                            @ py (str_decimal d) @ py ''.'')))
           \<and> validate_stop_price u (Some s) ot =
               (if 0 < denoted neg ip fp then Inr (Some d)
                else Inl (ValidationError (py ''Stop price must be greater than zero, got: ''
                            @ py (str_decimal d) @ py ''.'')))"
proof -
  let ?d = "Finite neg (nat_of_digits (ip @ fp)) (- int (length fp))"
  have d: "Decimal u s = Inr ?d" using assms by (rule Decimal_plain)
  have p: "strip s \<noteq> []" using assms(1) plain_numeral_present [OF assms(2)] by simp
  have v: "dec_value ?d = Some (denoted neg ip fp)" by (rule dec_value_plain)
  have e: "(nat_of_digits (ip @ fp) = 0 \<or> neg) = (\<not> 0 < denoted neg ip fp)"
    unfolding denoted_positive by auto
  have l: "le_zero ?d = Inr (\<not> 0 < denoted neg ip fp)"
    by (simp only: le_zero.simps e)
  have "validate_quantity u s =
               (if 0 < denoted neg ip fp then Inr ?d
                else Inl (ValidationError (py ''Quantity must be greater than zero, got: ''
                            @ py (str_decimal ?d) @ py ''.'')))"
    by (simp add: validate_quantity_def d l del: le_zero.simps)
  moreover have "validate_price u (Some s) ot =
               (if 0 < denoted neg ip fp then Inr (Some ?d)
                else Inl (ValidationError (py ''Price must be greater than zero, got: ''
                            @ py (str_decimal ?d) @ py ''.'')))"
    by (simp add: validate_price_def absent_def Let_def p d l del: le_zero.simps)
  moreover have "validate_stop_price u (Some s) ot =
               (if 0 < denoted neg ip fp then Inr (Some ?d)
                else Inl (ValidationError (py ''Stop price must be greater than zero, got: ''
                            @ py (str_decimal ?d) @ py ''.'')))"
    by (simp add: validate_stop_price_def absent_def Let_def p d l del: le_zero.simps)
  ultimately show ?thesis using d v by blast
qed

theorem plain_numeral_exact_witness:
  "strip (py '' 0.00010000 '') = py ''0.00010000''
   \<and> plain_numeral ''0.00010000'' False ''0'' ''00010000''
   \<and> length (''0'' @ ''00010000'') \<le> MAX_PREC
   \<and> denoted False ''0'' ''00010000'' = 1 / 10000
   \<and> validate_quantity example_unicode (py '' 0.00010000 '') = Inr (Finite False 10000 (- 8))
   \<and> dec_value (Finite False 10000 (- 8)) = Some (1 / 10000)
   \<and> validate_price example_unicode (Some (py '' 0.00010000 '')) (py ''LIMIT'')
       = Inr (Some (Finite False 10000 (- 8)))"
proof -
  have s: "strip (py '' 0.00010000 '') = py ''0.00010000''" by (rule strip_examples)
  have h: "plain_numeral ''0.00010000'' False ''0'' ''00010000''"
    by (simp add: plain_numeral_def is_digit_def)
  have n: "length (''0'' @ ''00010000'') \<le> MAX_PREC" by (simp add: MAX_PREC_def)
  have v: "denoted False ''0'' ''00010000'' = 1 / 10000"
    by (simp add: denoted_def digit_val_def)
  have d: "Decimal example_unicode (py '' 0.00010000 '') = Inr (Finite False 10000 (- 8))"
    by (rule Decimal_examples)
  from plain_numeral_exact [OF s h n, of example_unicode "py ''LIMIT''"] d v
  have "dec_value (Finite False 10000 (- 8)) = Some (1 / 10000)
      \<and> validate_quantity example_unicode (py '' 0.00010000 '') = Inr (Finite False 10000 (- 8))
      \<and> validate_price example_unicode (Some (py '' 0.00010000 '')) (py ''LIMIT'')
          = Inr (Some (Finite False 10000 (- 8)))"
    by auto
  with s h n v show ?thesis by blast
qed

text \<open>
  C8. A string that denotes no number is accepted: the spellings of infinity pass the
  constructor and the test \<open><= 0\<close>, and the validators return an infinite \<open>Decimal\<close>.
\<close>

theorem infinity_accepted:
  "validate_quantity u (py ''Infinity'') = Inr (Infinity False)
   \<and> dec_value (Infinity False) = None
   \<and> validate_price u (Some (py ''inf'')) (py ''LIMIT'') = Inr (Some (Infinity False))
   \<and> validate_stop_price u (Some (py ''+INF'')) (py ''STOP_LIMIT'')
       = Inr (Some (Infinity False))"
proof -
  have a: "strip (py ''inf'') \<noteq> []" "strip (py ''+INF'') \<noteq> []"
    by (simp_all add: strip_examples) (simp_all add: py_def)
  have "validate_quantity u (py ''Infinity'') = Inr (Infinity False)"
    by (simp add: validate_quantity_def Decimal_specials)
  moreover have "validate_price u (Some (py ''inf'')) (py ''LIMIT'')
                   = Inr (Some (Infinity False))"
    by (simp add: validate_price_def absent_def Let_def a Decimal_specials)
  moreover have "validate_stop_price u (Some (py ''+INF'')) (py ''STOP_LIMIT'')
                   = Inr (Some (Infinity False))"
    by (simp add: validate_stop_price_def absent_def Let_def a Decimal_specials)
  ultimately show ?thesis by simp
qed

section \<open>What does hold of orders and of the validator's exceptions\<close>

text \<open>
  The payload of a LIMIT order with a price carries \<open>price = str(price)\<close> and
  \<open>timeInForce\<close>.
\<close>

theorem limit_order_carries_price:
  "map_of (signed_payload ev self []
             (order_data symbol side ''LIMIT'' quantity (Some price) stop_price tif)) ''price''
     = Some (VStr (str_decimal price))
   \<and> map_of (signed_payload ev self []
             (order_data symbol side ''LIMIT'' quantity (Some price) stop_price tif))
         ''timeInForce''
     = Some (VStr tif)"
  by (cases stop_price)
     (simp_all add: signed_payload_def payload_fields_def order_data_def dict_merge_def Let_def)

lemma le_zero_Inl: "le_zero d = Inl e \<Longrightarrow> e = InvalidOperation \<and> is_nan d"
  by (cases d) auto

lemma reads_nanI:
  "Decimal u s = Inr d \<Longrightarrow> le_zero d = Inl e \<Longrightarrow> reads_nan u s \<and> e = InvalidOperation"
  by (cases d) (auto simp: reads_nan_def)

lemma validate_quantity_Inl:
  "validate_quantity u q = Inl e \<Longrightarrow>
     (\<exists>m. e = ValidationError m) \<or> (e = InvalidOperation \<and> reads_nan u q)"
  by (auto simp: validate_quantity_def split: sum.splits if_splits dest: reads_nanI)

lemma validate_price_Inl:
  "validate_price u p ot = Inl e \<Longrightarrow>
     (\<exists>m. e = ValidationError m)
     \<or> (e = InvalidOperation \<and> (\<exists>s. p = Some s \<and> reads_nan u s))"
  by (auto simp: validate_price_def Let_def
        split: sum.splits if_splits option.splits dest: reads_nanI)

lemma validate_stop_price_Inl:
  "validate_stop_price u p ot = Inl e \<Longrightarrow>
     (\<exists>m. e = ValidationError m)
     \<or> (e = InvalidOperation \<and> (\<exists>s. p = Some s \<and> reads_nan u s))"
  by (auto simp: validate_stop_price_def Let_def
        split: sum.splits if_splits option.splits dest: reads_nanI)

lemma validate_symbol_Inl: "validate_symbol u s = Inl e \<Longrightarrow> \<exists>m. e = ValidationError m"
  by (auto simp: validate_symbol_def Let_def split: if_splits)

lemma validate_side_Inl: "validate_side u s = Inl e \<Longrightarrow> \<exists>m. e = ValidationError m"
  by (auto simp: validate_side_def Let_def split: if_splits)

lemma validate_order_type_Inl:
  "validate_order_type u s = Inl e \<Longrightarrow> \<exists>m. e = ValidationError m"
  by (auto simp: validate_order_type_def Let_def split: if_splits)

lemma validate_all_Inl:
  assumes "validate_all u sy si ot q p sp = Inl e"
  shows "(\<exists>m. e = ValidationError m)
       \<or> (e = InvalidOperation
           \<and> (reads_nan u q \<or> (\<exists>s. p = Some s \<and> reads_nan u s)
                \<or> (\<exists>s. sp = Some s \<and> reads_nan u s)))"
proof -
  from assms consider "validate_symbol u sy = Inl e" | "validate_side u si = Inl e"
    | "validate_order_type u ot = Inl e" | "validate_quantity u q = Inl e"
    | "validate_price u p ot = Inl e" | "validate_stop_price u sp ot = Inl e"
    by (auto simp: validate_all_def split: sum.splits)
  then show ?thesis
  proof cases
    case 1 then show ?thesis using validate_symbol_Inl by blast
  next
    case 2 then show ?thesis using validate_side_Inl by blast
  next
    case 3 then show ?thesis using validate_order_type_Inl by blast
  next
    case 4 then show ?thesis using validate_quantity_Inl by blast
  next
    case 5 then show ?thesis using validate_price_Inl by blast
  next
    case 6 then show ?thesis using validate_stop_price_Inl by blast
  qed
qed

text \<open>
  The only exceptions that leave \<open>validate_all\<close> are \<open>ValidationError\<close> and
  \<open>InvalidOperation\<close>, the latter only when the quantity, the price or the stop price is
  read as a NaN.
\<close>

theorem validate_all_raises:
  "validate_all u sy si ot q p sp = Inl e \<Longrightarrow>
     (\<exists>m. e = ValidationError m)
     \<or> (e = InvalidOperation
         \<and> (reads_nan u q \<or> (\<exists>s. p = Some s \<and> reads_nan u s)
              \<or> (\<exists>s. sp = Some s \<and> reads_nan u s)))"
  by (rule validate_all_Inl)

theorem validate_all_raises_witness:
  "validate_all example_unicode (py ''BTCUSDT'') (py ''BUY'') (py ''MARKET'') (py ''sNaN'')
       None None
     = Inl InvalidOperation
   \<and> reads_nan example_unicode (py ''sNaN'')"
proof -
  have h: "validate_all example_unicode (py ''BTCUSDT'') (py ''BUY'') (py ''MARKET'')
             (py ''sNaN'') None None
           = Inl InvalidOperation"
    by (simp add: validate_all_def validate_examples validate_quantity_NaN)
  from validate_all_raises [OF h] have "reads_nan example_unicode (py ''sNaN'')" by simp
  with h show ?thesis by simp
qed

text \<open>
  The symbol, side and type of a validated order consist of code points below 128, so
  \<open>chars\<close> hands them to the client unchanged.
\<close>

lemma py_chars: "list_all (\<lambda>c. c < 256) t \<Longrightarrow> py (chars t) = t"
  by (induction t) (simp_all add: py_def chars_def)

lemma symbol_match_ascii:
  assumes "SYMBOL_PATTERN_match t"
  shows "list_all (\<lambda>c. c < 128) t"
proof -
  from assms obtain n where n: "list_all symbol_char (take n t)"
      and d: "drop n t = [] \<or> drop n t = [0x0A]"
    unfolding SYMBOL_PATTERN_match_iff by blast
  from n have "list_all (\<lambda>c. c < 128) (take n t)"
    by (auto simp: list_all_iff symbol_char_def)
  moreover from d have "list_all (\<lambda>c. c < 128) (drop n t)" by auto
  ultimately have "list_all (\<lambda>c. c < 128) (take n t @ drop n t)"
    by (simp only: list_all_append simp_thms)
  then show ?thesis by (simp only: append_take_drop_id)
qed

lemma validated_text:
  assumes "validate_all u sy si ot q p sp = Inr params"
  shows "list_all (\<lambda>c. c < 128) (p_symbol params)
       \<and> py (chars (p_symbol params)) = p_symbol params
       \<and> py (chars (p_side params)) = p_side params
       \<and> py (chars (p_order_type params)) = p_order_type params"
proof -
  from assms have sy: "validate_symbol u sy = Inr (p_symbol params)"
    and si: "validate_side u si = Inr (p_side params)"
    and ot: "validate_order_type u ot = Inr (p_order_type params)"
    by (auto simp: validate_all_def split: sum.splits)
  from sy have "SYMBOL_PATTERN_match (p_symbol params)"
    by (auto simp: validate_symbol_def Let_def split: if_splits)
  then have a: "list_all (\<lambda>c. c < 128) (p_symbol params)" by (rule symbol_match_ascii)
  then have "list_all (\<lambda>c. c < 256) (p_symbol params)" by (auto simp: list_all_iff)
  then have b: "py (chars (p_symbol params)) = p_symbol params" by (rule py_chars)
  from si have "p_side params \<in> {py ''BUY'', py ''SELL''}"
    by (auto simp: validate_side_def Let_def split: if_splits)
  then have c: "py (chars (p_side params)) = p_side params" by (auto simp: chars_py)
  from ot have "p_order_type params
      \<in> {py ''MARKET'', py ''LIMIT'', py ''STOP_MARKET'', py ''STOP_LIMIT''}"
    by (auto simp: validate_order_type_def Let_def split: if_splits)
  then have "py (chars (p_order_type params)) = p_order_type params"
    by (auto simp: chars_py)
  with a b c show ?thesis by simp
qed

lemma client_result:
  "\<exists>r. (case x of
          Inr response \<Rightarrow> Inr \<lparr>success = True, data = response, error = None\<rparr>
        | Inl e \<Rightarrow>
            (case e of
               ValidationError m \<Rightarrow> Inr (failure (Text m))
             | BinanceAPIError code msg status \<Rightarrow> Inr (failure (ApiErrorText code msg))
             | ConnectionError m \<Rightarrow> Inr (failure (Text (py (''Network Error: '' @ m))))
             | TimeoutError m \<Rightarrow> Inr (failure (Text (py (''Network Error: '' @ m))))
             | _ \<Rightarrow> Inr (failure (UnexpectedText e)))) = (Inr r :: exn + OrderResult)
        \<and> (success r \<longleftrightarrow> error r = None) \<and> (success r \<or> data r = JObj [])"
  by (cases x; simp add: failure_def split: exn.splits)

text \<open>
  Whenever \<open>validate_all\<close> does not raise \<open>InvalidOperation\<close>, \<open>place_order\<close> of
  \<open>orders.py\<close> returns an \<open>OrderResult\<close>, whatever the session does: with an error
  message exactly when \<open>success\<close> is false, and with empty data then.
\<close>

theorem place_order_returns:
  assumes "validate_all u sy si ot q p sp \<noteq> Inl InvalidOperation"
  shows "\<exists>r. place_order u ev client sy si ot q p sp ro = Inr r
            \<and> (success r \<longleftrightarrow> error r = None) \<and> (success r \<or> data r = JObj [])"
proof (cases "validate_all u sy si ot q p sp")
  case (Inl e)
  with assms validate_all_Inl [OF Inl] obtain m where "e = ValidationError m" by auto
  with Inl show ?thesis by (simp add: place_order_def failure_def)
next
  case (Inr params)
  then show ?thesis using client_result by (simp add: place_order_def)
qed

theorem place_order_returns_witness:
  "validate_all example_unicode (py ''btcusdt'') (py ''buy'') (py ''market'') (py ''0.001'')
       None None
     \<noteq> Inl InvalidOperation
   \<and> place_order example_unicode example_env rejecting_client (py ''btcusdt'') (py ''buy'')
         (py ''market'') (py ''0.001'') None None False
       = Inr (failure (ApiErrorText (JInt (- 1121)) (JStr ''Invalid symbol.'')))"
proof -
  have q: "validate_quantity example_unicode (py ''0.001'') = Inr (Finite False 1 (- 3))"
    by (simp add: validate_quantity_def Decimal_examples)
  have v: "validate_all example_unicode (py ''btcusdt'') (py ''buy'') (py ''market'')
               (py ''0.001'') None None
             = Inr \<lparr>p_symbol = py ''BTCUSDT'', p_side = py ''BUY'', p_order_type = py ''MARKET'',
                    p_quantity = Finite False 1 (- 3), p_price = None, p_stop_price = None\<rparr>"
    by (simp add: validate_all_def validate_examples q market_needs_nothing)
  then have h: "validate_all example_unicode (py ''btcusdt'') (py ''buy'') (py ''market'')
                  (py ''0.001'') None None
                  \<noteq> Inl InvalidOperation"
    by simp
  from place_order_returns [OF h, of example_env rejecting_client False]
  obtain r where r: "place_order example_unicode example_env rejecting_client (py ''btcusdt'')
      (py ''buy'') (py ''market'') (py ''0.001'') None None False = Inr r"
    by blast
  have "place_order example_unicode example_env rejecting_client (py ''btcusdt'') (py ''buy'')
         (py ''market'') (py ''0.001'') None None False
       = Inr (failure (ApiErrorText (JInt (- 1121)) (JStr ''Invalid symbol.'')))"
    by (simp add: place_order_def v client_place_order_def request_def rejecting_client_def
          read_response_def invalid_symbol_response_def has_negative_code_def dict_get_def)
  with h r show ?thesis by simp
qed

end
